theory Spec2Isabelle
  imports Complex_Main "HOL-Library.AList" "HOL-Library.Char_ord" "HOL-Library.List_Lexorder" "HOL-Library.Product_Lexorder"
begin

section \<open>Air-quality monitor: classification, sources and station scan\<close>

text \<open>
  The development follows \<^verbatim>\<open>app.py\<close>. Measured concentrations are Python floats; they
  are compared with constants only, so a value is modelled as a rational number and a missing
  value (\<^verbatim>\<open>None\<close>, \<^verbatim>\<open>NaN\<close>: whatever \<^verbatim>\<open>pd.isna\<close> accepts) as \<open>None\<close>. The ratings are
  the Python strings \<^verbatim>\<open>"Buena"\<close>, \<^verbatim>\<open>"Regular"\<close>, \<^verbatim>\<open>"Mala"\<close> (Good, Moderate, Poor) and a
  missing rating is \<^verbatim>\<open>None\<close> (Unknown).
\<close>

subsection \<open>Per-pollutant threshold functions\<close>

definition calidad_co :: "rat option \<Rightarrow> string option" where
  "calidad_co co =
     (case co of
        None \<Rightarrow> None
      | Some v \<Rightarrow> Some (if v \<le> 5.5 then ''Buena'' else if v \<le> 11 then ''Regular'' else ''Mala''))"

definition calidad_o3 :: "rat option \<Rightarrow> string option" where
  "calidad_o3 o3 =
     (case o3 of
        None \<Rightarrow> None
      | Some v \<Rightarrow> Some (if v \<le> 0.055 then ''Buena'' else if v \<le> 0.095 then ''Regular'' else ''Mala''))"

definition calidad_no2 :: "rat option \<Rightarrow> string option" where
  "calidad_no2 no2 =
     (case no2 of
        None \<Rightarrow> None
      | Some v \<Rightarrow> Some (if v \<le> 0.10 then ''Buena'' else if v \<le> 0.21 then ''Regular'' else ''Mala''))"

definition calidad_nox :: "rat option \<Rightarrow> string option" where
  "calidad_nox nox =
     (case nox of
        None \<Rightarrow> None
      | Some v \<Rightarrow> Some (if v \<le> 0.10 then ''Buena'' else if v \<le> 0.20 then ''Regular'' else ''Mala''))"

definition calidad_no :: "rat option \<Rightarrow> string option" where
  "calidad_no no =
     (case no of
        None \<Rightarrow> None
      | Some v \<Rightarrow> Some (if v \<le> 0.05 then ''Buena'' else if v \<le> 0.15 then ''Regular'' else ''Mala''))"


subsection \<open>Exceptions\<close>

text \<open>
  Every \<^verbatim>\<open>raise\<close> of the code is a value: \<open>Inl e\<close> is the exception \<open>e\<close> leaving a
  block, \<open>Inr x\<close> its normal result. All the classes below derive from \<^verbatim>\<open>Exception\<close>.
\<close>

datatype excepcion =
  RequestException | HTTPError nat | JSONDecodeError | KeyError | IndexError | TypeError
  | ValueError

definition luego :: "excepcion + 'a \<Rightarrow> ('a \<Rightarrow> excepcion + 'b) \<Rightarrow> excepcion + 'b" where
  "luego m f = (case m of Inl e \<Rightarrow> Inl e | Inr x \<Rightarrow> f x)"

subsection \<open>Data frames\<close>

text \<open>
  A wide table as the fetchers build it: the column labels in order, and one row per
  (fecha, hora) index entry holding a cell for each label. A cell is a number, the float
  \<^verbatim>\<open>NaN\<close>, a string or \<^verbatim>\<open>None\<close>. Dates are strings in ISO form, whose order is the order
  of the dates.
\<close>

datatype celda = Num rat | NaN | Txt string | Nada

type_synonym indice = "string \<times> int"

type_synonym fila = "(string \<times> celda) list"

record frame =
  columnas :: "string list"
  filas :: "(indice \<times> fila) list"

definition vacio :: "frame \<Rightarrow> bool" where
  \<comment> \<open>\<^verbatim>\<open>df.empty\<close>: some axis has length 0\<close>
  "vacio df = (columnas df = [] \<or> filas df = [])"

definition fila_get :: "fila \<Rightarrow> string \<Rightarrow> celda" where
  \<comment> \<open>\<^verbatim>\<open>row.get(c)\<close>: \<^verbatim>\<open>None\<close> when the row has no such label\<close>
  "fila_get row c = (case map_of row c of None \<Rightarrow> Nada | Some v \<Rightarrow> v)"

definition columna :: "frame \<Rightarrow> string \<Rightarrow> celda list" where
  \<comment> \<open>\<^verbatim>\<open>df[c]\<close> for a label of the frame\<close>
  "columna df c = map (\<lambda>(i, row). fila_get row c) (filas df)"

definition set_columna :: "string \<Rightarrow> celda list \<Rightarrow> frame \<Rightarrow> frame" where
  \<comment> \<open>\<^verbatim>\<open>df[c] = vs\<close>: an existing column is overwritten in place, a new one is appended\<close>
  "set_columna c vs df =
     df\<lparr>columnas := (if c \<in> set (columnas df) then columnas df else columnas df @ [c]),
        filas := map (\<lambda>((i, row), v). (i, AList.update c v row)) (zip (filas df) vs)\<rparr>"

subsection \<open>Evaluation of a frame\<close>

definition a_numero :: "celda \<Rightarrow> excepcion + rat option" where
  \<comment> \<open>what a threshold function sees of a cell: \<^verbatim>\<open>pd.isna\<close> holds of \<^verbatim>\<open>NaN\<close> and \<^verbatim>\<open>None\<close>;
      comparing a string with a float raises\<close>
  "a_numero c = (case c of Num v \<Rightarrow> Inr (Some v) | NaN \<Rightarrow> Inr None | Nada \<Rightarrow> Inr None
                 | Txt s \<Rightarrow> Inl TypeError)"

definition a_celda :: "string option \<Rightarrow> celda" where
  "a_celda r = (case r of None \<Rightarrow> Nada | Some s \<Rightarrow> Txt s)"

fun aplicar :: "(rat option \<Rightarrow> string option) \<Rightarrow> celda list \<Rightarrow> excepcion + celda list" where
  "aplicar f [] = Inr []"
| "aplicar f (c # cs) =
     luego (a_numero c) (\<lambda>v. luego (aplicar f cs) (\<lambda>rs. Inr (a_celda (f v) # rs)))"

definition clasificar ::
  "string \<Rightarrow> string \<Rightarrow> (rat option \<Rightarrow> string option) \<Rightarrow> frame \<Rightarrow> excepcion + frame" where
  \<comment> \<open>\<^verbatim>\<open>if src in df.columns: df[dst] = df[src].apply(f)\<close>\<close>
  "clasificar src dst f df =
     (if src \<in> set (columnas df)
      then luego (aplicar f (columna df src)) (\<lambda>vs. Inr (set_columna dst vs df))
      else Inr df)"

definition orden :: "celda \<Rightarrow> nat option" where
  \<comment> \<open>\<^verbatim>\<open>orden[x]\<close>: the dictionary has the three rating strings as keys\<close>
  "orden x = (case x of Txt s \<Rightarrow> map_of [(''Buena'', 1), (''Regular'', 2), (''Mala'', 3)] s
              | _ \<Rightarrow> None)"

fun max_por :: "('a \<Rightarrow> nat) \<Rightarrow> 'a \<Rightarrow> 'a list \<Rightarrow> 'a" where
  \<comment> \<open>Python's \<^verbatim>\<open>max(xs, key=k)\<close> on a non-empty list: the first element of greatest key\<close>
  "max_por k b [] = b"
| "max_por k b (x # xs) = max_por k (if k b < k x then x else b) xs"

definition etiquetas_calidad :: "string list" where
  "etiquetas_calidad = [''calidad_CO'', ''calidad_O3'', ''calidad_NO2'', ''calidad_NOx'', ''calidad_NO'']"

definition conocidas :: "fila \<Rightarrow> celda list" where
  \<comment> \<open>\<^verbatim>\<open>[c for c in calidades if c is not None]\<close>\<close>
  "conocidas row = filter (\<lambda>c. c \<noteq> Nada) (map (fila_get row) etiquetas_calidad)"

definition calidad_global :: "fila \<Rightarrow> excepcion + celda" where
  "calidad_global row =
     (case conocidas row of
        [] \<Rightarrow> Inr Nada
      | c # cs \<Rightarrow>
          if list_all (\<lambda>x. orden x \<noteq> None) (c # cs)
          then Inr (max_por (\<lambda>x. the (orden x)) c cs)
          else Inl KeyError)"

fun globales :: "fila list \<Rightarrow> excepcion + celda list" where
  \<comment> \<open>\<^verbatim>\<open>df.apply(calidad_global, axis=1)\<close>\<close>
  "globales [] = Inr []"
| "globales (row # rows) =
     luego (calidad_global row) (\<lambda>g. luego (globales rows) (\<lambda>gs. Inr (g # gs)))"

definition evaluar_calidad_aire :: "frame option \<Rightarrow> excepcion + frame option" where
  "evaluar_calidad_aire df =
     (case df of
        None \<Rightarrow> Inr None
      | Some d \<Rightarrow>
          if vacio d then Inr None
          else
            luego (clasificar ''CO'' ''calidad_CO'' calidad_co d) (\<lambda>d1.
            luego (clasificar ''O3'' ''calidad_O3'' calidad_o3 d1) (\<lambda>d2.
            luego (clasificar ''NO2'' ''calidad_NO2'' calidad_no2 d2) (\<lambda>d3.
            luego (clasificar ''NOX'' ''calidad_NOx'' calidad_nox d3) (\<lambda>d4.
            luego (clasificar ''NO'' ''calidad_NO'' calidad_no d4) (\<lambda>d5.
            luego (globales (map snd (filas d5))) (\<lambda>gs.
              Inr (Some (set_columna ''calidad_global'' gs d5)))))))))"

subsection \<open>Pivoting long rows into a wide frame\<close>

text \<open>
  Both fetchers collect long rows (parametro, fecha, hora, valorAct) and hand them to
  \<^verbatim>\<open>pivot_table(index=["fecha", "hora"], columns="parametro", values="valorAct")\<close>. pandas is
  modelled on values: the rows are grouped by (fecha, hora, parametro), a row with a missing
  key belongs to no group, the cell of a group is the mean of its values that are not
  missing, a group without any such value is dropped, and both axes are sorted. Hence only
  the rows with all four fields present contribute. The mean is the exact one: of a single
  value, the case of a payload with one row per (fecha, hora, parametro), it is that value;
  of several values the code's binary64 mean can differ from it in the last place, which
  the rational numbers of this model do not follow.
\<close>

record registro =
  parametro :: "string option"
  fecha :: "string option"
  hora :: "int option"
  valorAct :: "rat option"

definition observacion :: "registro \<Rightarrow> (indice \<times> string \<times> rat) option" where
  "observacion r =
     (case (fecha r, hora r, parametro r, valorAct r) of
        (Some f, Some h, Some p, Some v) \<Rightarrow> Some ((f, h), p, v)
      | _ \<Rightarrow> None)"

definition media :: "rat list \<Rightarrow> celda" where
  "media vs = (if vs = [] then NaN else Num (sum_list vs / of_nat (length vs)))"

definition pivot_table :: "registro list \<Rightarrow> frame" where
  "pivot_table rs =
     (let obs = List.map_filter observacion rs;
          idx = sort (remdups (map fst obs));
          cols = sort (remdups (map (fst \<circ> snd) obs))
      in \<lparr>columnas = cols,
          filas = map (\<lambda>k. (k, map (\<lambda>p. (p, media [v. (k', p', v) \<leftarrow> obs, k' = k, p' = p])) cols)) idx\<rparr>)"

definition tail1 :: "frame \<Rightarrow> frame" where
  \<comment> \<open>\<^verbatim>\<open>df.tail(1)\<close>\<close>
  "tail1 df = df\<lparr>filas := (case filas df of [] \<Rightarrow> [] | _ \<Rightarrow> [last (filas df)])\<rparr>"

subsection \<open>The scraped source (SINAICA)\<close>

text \<open>
  The upstream answer to \<^verbatim>\<open>requests.get\<close> is either a failure of the request (timeout,
  connection error: the call raises) or a page. Of a page the code sees what the two
  searches \<^verbatim>\<open>conts = {...};\<close> and \<^verbatim>\<open>meteo = {...};\<close> find, independently of each other:
  nothing, a text that \<^verbatim>\<open>json.loads\<close> rejects, or a JSON object. Of the object it reads, for
  each listed key, the value when it is a list; a list element is \<^verbatim>\<open>null\<close>, an object, or
  anything else. Of an object the four fields that the pivot uses are kept, each absent
  (or null) or of its documented type.
\<close>

datatype fila_json = JNull | JObj registro | JOtro

datatype blob = JsonInvalido | JsonDict "string \<Rightarrow> fila_json list option"

record pagina =
  conts :: "blob option"
  meteo :: "blob option"

datatype respuesta_pagina = FalloRed | Pagina pagina

datatype diagnostico = StError string excepcion | StWarning string excepcion

definition fila_nula :: "string \<Rightarrow> registro" where
  \<comment> \<open>the row appended for an explicit \<^verbatim>\<open>null\<close>\<close>
  "fila_nula key = \<lparr>parametro = Some key, fecha = None, hora = None, valorAct = None\<rparr>"

fun filas_de :: "string \<Rightarrow> fila_json list \<Rightarrow> registro list" where
  "filas_de key [] = []"
| "filas_de key (JNull # rows) = fila_nula key # filas_de key rows"
| "filas_de key (JObj r # rows) = r # filas_de key rows"
| "filas_de key (JOtro # rows) = filas_de key rows"

definition tablas :: "string list \<Rightarrow> (string \<Rightarrow> fila_json list option) \<Rightarrow> registro list list" where
  \<comment> \<open>one table per listed key whose value is a list\<close>
  "tablas claves d = List.map_filter (\<lambda>key. map_option (filas_de key) (d key)) claves"

definition claves_conts :: "string list" where
  "claves_conts = [''CO'', ''NO'', ''NO2'', ''NOx'', ''O3'', ''PM10'', ''PM2.5'', ''SO2'']"

definition claves_meteo :: "string list" where
  "claves_meteo = [''DV'', ''HR'', ''TMP'', ''VV'']"

definition leer_blob :: "string list \<Rightarrow> blob option \<Rightarrow> excepcion + registro list list" where
  "leer_blob claves b =
     (case b of
        None \<Rightarrow> Inr []
      | Some JsonInvalido \<Rightarrow> Inl JSONDecodeError
      | Some (JsonDict d) \<Rightarrow> Inr (tablas claves d))"

definition get_sinaica_cuerpo :: "respuesta_pagina \<Rightarrow> excepcion + frame option" where
  \<comment> \<open>the body of the \<^verbatim>\<open>try\<close> block of \<^verbatim>\<open>get_sinaica_data\<close>\<close>
  "get_sinaica_cuerpo resp =
     (case resp of
        FalloRed \<Rightarrow> Inl RequestException
      | Pagina pg \<Rightarrow>
          luego (leer_blob claves_conts (conts pg)) (\<lambda>dfs1.
          luego (leer_blob claves_meteo (meteo pg)) (\<lambda>dfs2.
            if dfs1 @ dfs2 = [] then Inr None
            else Inr (Some (tail1 (pivot_table (concat (dfs1 @ dfs2))))))))"

definition get_sinaica_data ::
  "(nat \<Rightarrow> respuesta_pagina) \<Rightarrow> nat \<Rightarrow> excepcion + (frame option \<times> diagnostico list)" where
  \<comment> \<open>\<^verbatim>\<open>try: ... except Exception as e: st.error(...); return None\<close>\<close>
  "get_sinaica_data web estId =
     (case get_sinaica_cuerpo (web estId) of
        Inl e \<Rightarrow> Inr (None, [StError ''Error obteniendo datos SINAICA'' e])
      | Inr df \<Rightarrow> Inr (df, []))"

subsection \<open>The REST source (OpenAQ)\<close>

text \<open>
  A call answers with nothing (the request raises), or with a status code and a body that
  \<^verbatim>\<open>response.json()\<close> rejects or decodes. The listing is read as
  \<^verbatim>\<open>data["results"][0]["sensors"]\<close> and each sensor as \<^verbatim>\<open>sensor["id"]\<close>: a missing key is
  \<open>None\<close>. A sensor answer is read as \<^verbatim>\<open>sensor_data["results"]\<close>, a list of records that
  \<^verbatim>\<open>json_normalize\<close> flattens; of a record the three selected columns are kept, each missing
  from the record, null, or a value. The timestamp is kept as parsed: the local date and
  the hour.
\<close>

datatype 'a campo = Falta | Nulo | Valor 'a

record medicion =
  parameter_name :: "string campo"
  latest_value :: "rat campo"
  latest_datetime_local :: "indice campo"

datatype 'a cuerpo = JsonMalo | Json 'a

datatype 'a respuesta = SinRespuesta | Respuesta nat "'a cuerpo"

record localizacion =
  sensors :: "nat option list option"

record red_openaq =
  locations :: "nat \<Rightarrow> string \<Rightarrow> localizacion list option respuesta"
  sensores_api :: "nat \<Rightarrow> string \<Rightarrow> medicion list option respuesta"

record lectura =
  l_parametro :: "string option"
  l_valorAct :: "rat option"
  datetime_local :: "indice option"

definition raise_for_status :: "nat \<Rightarrow> excepcion + unit" where
  "raise_for_status status = (if 400 \<le> status \<and> status < 600 then Inl (HTTPError status) else Inr ())"

definition pedir :: "'a respuesta \<Rightarrow> excepcion + 'a" where
  \<comment> \<open>\<^verbatim>\<open>requests.get(...)\<close>, \<^verbatim>\<open>raise_for_status()\<close>, \<^verbatim>\<open>json()\<close>\<close>
  "pedir r =
     (case r of
        SinRespuesta \<Rightarrow> Inl RequestException
      | Respuesta status b \<Rightarrow>
          luego (raise_for_status status) (\<lambda>_.
            case b of JsonMalo \<Rightarrow> Inl JSONDecodeError | Json x \<Rightarrow> Inr x))"

definition presente :: "'a campo \<Rightarrow> bool" where
  "presente c = (c \<noteq> Falta)"

definition valor_de :: "'a campo \<Rightarrow> 'a option" where
  "valor_de c = (case c of Valor v \<Rightarrow> Some v | _ \<Rightarrow> None)"

definition df_sensor_clean :: "medicion list option \<Rightarrow> excepcion + lectura list" where
  \<comment> \<open>selecting a column that no record has raises \<^verbatim>\<open>KeyError\<close>\<close>
  "df_sensor_clean res =
     (case res of
        None \<Rightarrow> Inl KeyError
      | Some ms \<Rightarrow>
          if list_ex (\<lambda>m. presente (parameter_name m)) ms
             \<and> list_ex (\<lambda>m. presente (latest_value m)) ms
             \<and> list_ex (\<lambda>m. presente (latest_datetime_local m)) ms
          then Inr (map (\<lambda>m. \<lparr>l_parametro = valor_de (parameter_name m),
                              l_valorAct = valor_de (latest_value m),
                              datetime_local = valor_de (latest_datetime_local m)\<rparr>) ms)
          else Inl KeyError)"

fun sensores_loop ::
  "(nat \<Rightarrow> medicion list option respuesta) \<Rightarrow> nat option list \<Rightarrow> excepcion + lectura list list" where
  "sensores_loop net [] = Inr []"
| "sensores_loop net (sensor # rest) =
     (case sensor of
        None \<Rightarrow> Inl KeyError
      | Some sensor_id \<Rightarrow>
          luego (pedir (net sensor_id)) (\<lambda>sensor_data.
          luego (df_sensor_clean sensor_data) (\<lambda>df.
          luego (sensores_loop net rest) (\<lambda>dfs. Inr (df # dfs)))))"

definition upper_char :: "char \<Rightarrow> char" where
  "upper_char c = (if CHR ''a'' \<le> c \<and> c \<le> CHR ''z'' then char_of (of_char c - (32::nat)) else c)"

definition upper :: "string \<Rightarrow> string" where
  \<comment> \<open>\<^verbatim>\<open>str.upper\<close> on ASCII text\<close>
  "upper s = map upper_char s"

definition normalizar :: "lectura \<Rightarrow> registro" where
  \<comment> \<open>the columns fecha, hora and the upper-cased parametro\<close>
  "normalizar l =
     \<lparr>parametro = map_option upper (l_parametro l),
      fecha = map_option fst (datetime_local l),
      hora = map_option snd (datetime_local l),
      valorAct = l_valorAct l\<rparr>"

definition maximo :: "'a::linorder list \<Rightarrow> 'a option" where
  \<comment> \<open>the greatest of the entries that are present; of nothing it is missing\<close>
  "maximo xs = (case xs of [] \<Rightarrow> None | x # ys \<Rightarrow> Some (fold max ys x))"

definition ultimas :: "registro list \<Rightarrow> excepcion + registro list" where
  \<comment> \<open>the rows of the latest fecha and, within it, the latest hora. The column fecha holds
      \<^verbatim>\<open>date\<close> objects: its \<^verbatim>\<open>.max()\<close> raises when a date is compared with the filler of a
      missing one, that is when some timestamps are missing and some are present. The column
      hora is numeric and its \<^verbatim>\<open>.max()\<close> skips what is missing.\<close>
  "ultimas rs =
     (if list_ex (\<lambda>r. fecha r = None) rs \<and> list_ex (\<lambda>r. fecha r \<noteq> None) rs
      then Inl TypeError
      else
        Inr (case maximo (List.map_filter fecha rs) of
               None \<Rightarrow> []
             | Some fecha_max \<Rightarrow>
                 (case maximo (List.map_filter hora (filter (\<lambda>r. fecha r = Some fecha_max) rs)) of
                    None \<Rightarrow> []
                  | Some hora_max \<Rightarrow>
                      filter (\<lambda>r. fecha r = Some fecha_max \<and> hora r = Some hora_max) rs)))"

definition sensores_de :: "localizacion list option \<Rightarrow> excepcion + nat option list" where
  \<comment> \<open>\<^verbatim>\<open>data["results"][0]["sensors"]\<close>\<close>
  "sensores_de res =
     (case res of
        None \<Rightarrow> Inl KeyError
      | Some [] \<Rightarrow> Inl IndexError
      | Some (loc # _) \<Rightarrow> (case sensors loc of None \<Rightarrow> Inl KeyError | Some ss \<Rightarrow> Inr ss))"

definition get_openaq_cuerpo :: "red_openaq \<Rightarrow> nat \<Rightarrow> string \<Rightarrow> excepcion + frame option" where
  \<comment> \<open>the body of the \<^verbatim>\<open>try\<close> block of \<^verbatim>\<open>get_openaq_data\<close>\<close>
  "get_openaq_cuerpo net estId API_KEY =
     luego (pedir (locations net estId API_KEY)) (\<lambda>data.
     luego (sensores_de data) (\<lambda>ss.
     luego (sensores_loop (\<lambda>sensor_id. sensores_api net sensor_id API_KEY) ss) (\<lambda>dfs.
       if dfs = [] then Inr None
       else luego (ultimas (map normalizar (concat dfs))) (\<lambda>df_ult.
              Inr (Some (pivot_table df_ult))))))"

definition get_openaq_data ::
  "red_openaq \<Rightarrow> nat \<Rightarrow> string \<Rightarrow> excepcion + (frame option \<times> diagnostico list)" where
  "get_openaq_data net estId API_KEY =
     (case get_openaq_cuerpo net estId API_KEY of
        Inl e \<Rightarrow> Inr (None, [StError ''Error obteniendo datos OpenAQ'' e])
      | Inr df \<Rightarrow> Inr (df, []))"

subsection \<open>Stations and credentials\<close>

record estacion_info =
  lat :: rat
  lng :: rat
  sinaica :: nat
  openaq :: nat

definition ESTACIONES :: "(string \<times> estacion_info) list" where
  \<comment> \<open>accented letters are their UTF-8 bytes\<close>
  "ESTACIONES =
     [(''Ajusco Medio'', \<lparr>lat = 19.1547, lng = -99.2063, sinaica = 242, openaq = 480393\<rparr>),
      (''Benito Ju'' @ [CHR 0xC3, CHR 0xA1] @ ''rez'',
         \<lparr>lat = 19.3706, lng = -99.1591, sinaica = 300, openaq = 10860\<rparr>),
      (''Camarones'', \<lparr>lat = 19.4586, lng = -99.1853, sinaica = 244, openaq = 10722\<rparr>),
      (''Centro de Ciencias de la Atm'' @ [CHR 0xC3, CHR 0xB3] @ ''sfera'',
         \<lparr>lat = 19.3264, lng = -99.1764, sinaica = 245, openaq = 10534\<rparr>),
      (''Cuajimalpa'', \<lparr>lat = 19.3650, lng = -99.2919, sinaica = 246, openaq = 223434\<rparr>),
      (''Gustavo A. Madero'', \<lparr>lat = 19.4858, lng = -99.1281, sinaica = 302, openaq = 10632\<rparr>),
      (''Hospital General de M'' @ [CHR 0xC3, CHR 0xA9] @ ''xico'',
         \<lparr>lat = 19.4116, lng = -99.1522, sinaica = 251, openaq = 1134\<rparr>),
      (''Merced'', \<lparr>lat = 19.4244, lng = -99.1197, sinaica = 256, openaq = 10748\<rparr>),
      (''Miguel Hidalgo'', \<lparr>lat = 19.4006, lng = -99.2025, sinaica = 263, openaq = 10735\<rparr>),
      (''Pedregal'', \<lparr>lat = 19.3250, lng = -99.2039, sinaica = 259, openaq = 10658\<rparr>),
      (''Santiago Acahualtepec'', \<lparr>lat = 19.4833, lng = -99.0089, sinaica = 432, openaq = 10802\<rparr>),
      (''UAM Iztapalapa'', \<lparr>lat = 19.3617, lng = -99.0739, sinaica = 268, openaq = 10804\<rparr>)]"

definition API_KEYS :: "string list" where
  "API_KEYS =
     [''934a33cfc397140c9f15c38a528f79384b5d180f31cb344dc217840f3a7cff93'',
      ''23a0b5d725eaf67585d9c4b3d8e1fcd02cd10c0ae4cbaf47cade3de6de27d0cc'']"

subsection \<open>The scan over the selected stations\<close>

text \<open>
  The state of the scan: the list \<^verbatim>\<open>resultados\<close>, the dictionary \<^verbatim>\<open>datos_para_mapa\<close>, the
  messages shown (\<^verbatim>\<open>st.error\<close>, \<^verbatim>\<open>st.warning\<close>) and, to speak about which fetches were
  attempted, the log of the calls made to the two fetchers. The upstream is a parameter: what
  each page request and each REST call answers.
\<close>

datatype seleccion = Ambas | SoloSINAICA | SoloOpenAQ

record tabla =
  t_columnas :: "string list"
  t_filas :: "fila list"

record entrada_mapa =
  em_calidad_global :: celda
  em_fuente :: string
  em_valores :: "(string \<times> celda) list"

record estado =
  resultados :: "tabla list"
  datos_para_mapa :: "string \<Rightarrow> entrada_mapa option"
  mensajes :: "diagnostico list"
  llamadas :: "(string \<times> nat) list"

record mundo =
  web_sinaica :: "nat \<Rightarrow> respuesta_pagina"
  api_openaq :: red_openaq

definition estado_inicial :: estado where
  "estado_inicial = \<lparr>resultados = [], datos_para_mapa = Map.empty, mensajes = [], llamadas = []\<rparr>"

definition set_escalar :: "string \<Rightarrow> celda \<Rightarrow> frame \<Rightarrow> frame" where
  \<comment> \<open>\<^verbatim>\<open>df[c] = v\<close> for a scalar\<close>
  "set_escalar c v df = set_columna c (replicate (length (filas df)) v) df"

definition reset_index :: "frame \<Rightarrow> excepcion + tabla" where
  \<comment> \<open>the index levels become the first columns; a label already there raises\<close>
  "reset_index df =
     (if ''fecha'' \<in> set (columnas df) \<or> ''hora'' \<in> set (columnas df) then Inl ValueError
      else Inr \<lparr>t_columnas = ''fecha'' # ''hora'' # columnas df,
                t_filas = map (\<lambda>((f, h), row). (''fecha'', Txt f) # (''hora'', Num (of_int h)) # row)
                            (filas df)\<rparr>)"

definition procesar :: "string \<Rightarrow> string \<Rightarrow> frame option \<Rightarrow> excepcion + (frame \<times> tabla) option" where
  \<comment> \<open>from the fetched frame to the entry of \<^verbatim>\<open>resultados\<close>: nothing for no data, else the
      evaluated, tagged frame and its table\<close>
  "procesar fuente estacion df =
     (case df of
        None \<Rightarrow> Inr None
      | Some d \<Rightarrow>
          if vacio d then Inr None
          else
            luego (evaluar_calidad_aire (Some d)) (\<lambda>r.
              case r of
                None \<Rightarrow> Inl TypeError
              | Some d1 \<Rightarrow>
                  (let d2 = set_escalar ''estacion'' (Txt estacion)
                              (set_escalar ''fuente'' (Txt fuente) d1)
                   in luego (reset_index d2) (\<lambda>t. Inr (Some (d2, t))))))"

definition entrada_de :: "string \<Rightarrow> frame \<Rightarrow> excepcion + entrada_mapa" where
  \<comment> \<open>the inner \<^verbatim>\<open>try\<close> block: the overall rating and the values of the first row\<close>
  "entrada_de fuente df =
     (case filas df of
        [] \<Rightarrow> Inl IndexError
      | (i, row) # _ \<Rightarrow>
          Inr \<lparr>em_calidad_global =
                 (if ''calidad_global'' \<in> set (columnas df) then fila_get row ''calidad_global''
                  else Nada),
               em_fuente = fuente,
               em_valores =
                 List.map_filter
                   (\<lambda>col. if col \<in> set [''fecha'', ''hora'', ''fuente'', ''estacion''] then None
                          else (case fila_get row col of
                                  Nada \<Rightarrow> None | NaN \<Rightarrow> None | v \<Rightarrow> Some (col, v)))
                   (columnas df)\<rparr>)"

definition guardar_mapa :: "string \<Rightarrow> string \<Rightarrow> frame \<Rightarrow> estado \<Rightarrow> estado" where
  "guardar_mapa fuente estacion df st =
     (case entrada_de fuente df of
        Inl e \<Rightarrow> st\<lparr>mensajes := mensajes st @ [StWarning (''Error procesando datos de mapa para '' @ estacion) e]\<rparr>
      | Inr en \<Rightarrow> st\<lparr>datos_para_mapa := (datos_para_mapa st)(estacion \<mapsto> en)\<rparr>)"

definition paso_sinaica :: "mundo \<Rightarrow> string \<Rightarrow> estacion_info \<Rightarrow> estado \<Rightarrow> estado" where
  "paso_sinaica w estacion info st =
     (let st0 = st\<lparr>llamadas := llamadas st @ [(''SINAICA'', sinaica info)]\<rparr>;
          fallo = (\<lambda>s e. s\<lparr>mensajes := mensajes s @ [StError (''Error consultando SINAICA para '' @ estacion) e]\<rparr>)
      in case get_sinaica_data (web_sinaica w) (sinaica info) of
           Inl e \<Rightarrow> fallo st0 e
         | Inr (df_sinaica, ds) \<Rightarrow>
             (let st1 = st0\<lparr>mensajes := mensajes st0 @ ds\<rparr>
              in case procesar ''SINAICA'' estacion df_sinaica of
                   Inl e \<Rightarrow> fallo st1 e
                 | Inr None \<Rightarrow> st1
                 | Inr (Some (df, t)) \<Rightarrow>
                     (let st2 = st1\<lparr>resultados := resultados st1 @ [t]\<rparr>
                      in if (case datos_para_mapa st2 estacion of
                               None \<Rightarrow> True
                             | Some en \<Rightarrow> em_fuente en \<noteq> ''SINAICA'')
                         then guardar_mapa ''SINAICA'' estacion df st2
                         else st2)))"

definition paso_openaq :: "mundo \<Rightarrow> nat \<Rightarrow> string \<Rightarrow> estacion_info \<Rightarrow> estado \<Rightarrow> estado" where
  "paso_openaq w idx estacion info st =
     (let api_key = API_KEYS ! (idx mod length API_KEYS);
          st0 = st\<lparr>llamadas := llamadas st @ [(''OPENAQ'', openaq info)]\<rparr>;
          fallo = (\<lambda>s e. s\<lparr>mensajes := mensajes s @ [StError (''Error consultando OpenAQ para '' @ estacion) e]\<rparr>)
      in case get_openaq_data (api_openaq w) (openaq info) api_key of
           Inl e \<Rightarrow> fallo st0 e
         | Inr (df_openaq, ds) \<Rightarrow>
             (let st1 = st0\<lparr>mensajes := mensajes st0 @ ds\<rparr>
              in case procesar ''OPENAQ'' estacion df_openaq of
                   Inl e \<Rightarrow> fallo st1 e
                 | Inr None \<Rightarrow> st1
                 | Inr (Some (df, t)) \<Rightarrow>
                     (let st2 = st1\<lparr>resultados := resultados st1 @ [t]\<rparr>
                      in if datos_para_mapa st2 estacion = None
                         then guardar_mapa ''OPENAQ'' estacion df st2
                         else st2)))"

definition paso :: "mundo \<Rightarrow> seleccion \<Rightarrow> nat \<Rightarrow> string \<Rightarrow> estado \<Rightarrow> excepcion + estado" where
  \<comment> \<open>one turn of the loop; \<^verbatim>\<open>ESTACIONES[estacion]\<close> is outside every \<^verbatim>\<open>try\<close>\<close>
  "paso w fuente_seleccionada idx estacion st =
     (case map_of ESTACIONES estacion of
        None \<Rightarrow> Inl KeyError
      | Some info \<Rightarrow>
          (let st1 = (if fuente_seleccionada \<in> set [Ambas, SoloSINAICA]
                      then paso_sinaica w estacion info st else st);
               st2 = (if fuente_seleccionada \<in> set [Ambas, SoloOpenAQ]
                      then paso_openaq w idx estacion info st1 else st1)
           in Inr st2))"

fun escanear_desde ::
  "mundo \<Rightarrow> seleccion \<Rightarrow> nat \<Rightarrow> string list \<Rightarrow> estado \<Rightarrow> excepcion + estado" where
  "escanear_desde w sel idx [] st = Inr st"
| "escanear_desde w sel idx (estacion # rest) st =
     luego (paso w sel idx estacion st) (\<lambda>st'. escanear_desde w sel (Suc idx) rest st')"

definition escanear :: "mundo \<Rightarrow> seleccion \<Rightarrow> string list \<Rightarrow> excepcion + estado" where
  \<comment> \<open>\<^verbatim>\<open>for idx, estacion in enumerate(estaciones_seleccionadas)\<close> from the empty state\<close>
  "escanear w sel estaciones_seleccionadas =
     escanear_desde w sel 0 estaciones_seleccionadas estado_inicial"

subsection \<open>The result cache\<close>

text \<open>
  Modelled from the spec: the memoising decorator \<^verbatim>\<open>st.cache_data(ttl=600)\<close> and its
  \<^verbatim>\<open>clear()\<close> belong to Streamlit, not to the repository. Following the specification's
  ResultCache it is a read-through cache with a time to live: a call whose key has an
  entry younger than the TTL returns the stored value and calls nothing; any other call runs
  the decorated function, stores its value with the time of the call and returns it;
  clearing removes every entry. The clock is a parameter, in seconds. What the source fixes
  is kept from the source: the TTL of 600 and the key, which is the decorated function with
  the arguments of its signature, \<^verbatim>\<open>get_sinaica_data(estId)\<close> and
  \<^verbatim>\<open>get_openaq_data(estId, API_KEY)\<close>. The upstream may answer differently at different
  times.
\<close>

datatype clave = ClaveSinaica nat | ClaveOpenaq nat string

type_synonym resultado = "excepcion + (frame option \<times> diagnostico list)"

record cache =
  entradas :: "clave \<Rightarrow> (nat \<times> resultado) option"
  llamadas_upstream :: "clave list"

record internet =
  paginas :: "nat \<Rightarrow> nat \<Rightarrow> respuesta_pagina"
  rest :: "nat \<Rightarrow> red_openaq"

definition ttl :: nat where
  "ttl = 600"

definition cache_vacio :: cache where
  "cache_vacio = \<lparr>entradas = Map.empty, llamadas_upstream = []\<rparr>"

definition upstream :: "internet \<Rightarrow> nat \<Rightarrow> clave \<Rightarrow> resultado" where
  \<comment> \<open>running the decorated function at a given time\<close>
  "upstream net now k =
     (case k of
        ClaveSinaica estId \<Rightarrow> get_sinaica_data (paginas net now) estId
      | ClaveOpenaq estId API_KEY \<Rightarrow> get_openaq_data (rest net now) estId API_KEY)"

definition recalcular :: "internet \<Rightarrow> nat \<Rightarrow> clave \<Rightarrow> cache \<Rightarrow> resultado \<times> cache" where
  "recalcular net now k c =
     (upstream net now k,
      c\<lparr>entradas := (entradas c)(k \<mapsto> (now, upstream net now k)),
        llamadas_upstream := llamadas_upstream c @ [k]\<rparr>)"

definition cached :: "internet \<Rightarrow> nat \<Rightarrow> clave \<Rightarrow> cache \<Rightarrow> resultado \<times> cache" where
  "cached net now k c =
     (case entradas c k of
        None \<Rightarrow> recalcular net now k c
      | Some (t0, v) \<Rightarrow> if now < t0 + ttl then (v, c) else recalcular net now k c)"

definition clear :: "cache \<Rightarrow> cache" where
  \<comment> \<open>\<^verbatim>\<open>st.cache_data.clear()\<close>\<close>
  "clear c = c\<lparr>entradas := Map.empty\<rparr>"

definition get_sinaica_data_cached :: "internet \<Rightarrow> nat \<Rightarrow> nat \<Rightarrow> cache \<Rightarrow> resultado \<times> cache" where
  "get_sinaica_data_cached net now estId c = cached net now (ClaveSinaica estId) c"

definition get_openaq_data_cached ::
  "internet \<Rightarrow> nat \<Rightarrow> nat \<Rightarrow> string \<Rightarrow> cache \<Rightarrow> resultado \<times> cache" where
  "get_openaq_data_cached net now estId API_KEY c = cached net now (ClaveOpenaq estId API_KEY) c"

subsection \<open>Notions used to state the properties\<close>

definition es_objeto :: "fila_json \<Rightarrow> bool" where
  "es_objeto r = (case r of JObj _ \<Rightarrow> True | _ \<Rightarrow> False)"

definition limpiar :: "blob \<Rightarrow> blob" where
  \<comment> \<open>the blob without its null and malformed rows\<close>
  "limpiar b =
     (case b of
        JsonInvalido \<Rightarrow> JsonInvalido
      | JsonDict d \<Rightarrow> JsonDict (\<lambda>key. map_option (filter es_objeto) (d key)))"

definition limpiar_pagina :: "pagina \<Rightarrow> pagina" where
  "limpiar_pagina pg = \<lparr>conts = map_option limpiar (conts pg), meteo = map_option limpiar (meteo pg)\<rparr>"

definition objetos :: "fila_json list \<Rightarrow> registro list" where
  \<comment> \<open>the well-formed rows of a row sequence\<close>
  "objetos rows = List.map_filter (\<lambda>j. case j of JObj r \<Rightarrow> Some r | _ \<Rightarrow> None) rows"

definition filas_utiles :: "string list \<Rightarrow> blob option \<Rightarrow> registro list" where
  \<comment> \<open>the usable rows of a blob: the objects under the listed keys that carry fecha, hora,
      parametro and valorAct\<close>
  "filas_utiles claves b =
     (case b of
        Some (JsonDict d) \<Rightarrow>
          filter (\<lambda>r. observacion r \<noteq> None) (concat (map objetos (List.map_filter d claves)))
      | _ \<Rightarrow> [])"

definition exito_sinaica :: "mundo \<Rightarrow> string \<Rightarrow> estacion_info \<Rightarrow> (frame \<times> tabla) option" where
  \<comment> \<open>the scraped source's non-empty success at a station: the evaluated, tagged frame and
      its table, when the fetch returned data and the evaluation went through\<close>
  "exito_sinaica w estacion info =
     (case get_sinaica_data (web_sinaica w) (sinaica info) of
        Inl e \<Rightarrow> None
      | Inr (df, ds) \<Rightarrow>
          (case procesar ''SINAICA'' estacion df of Inr (Some r) \<Rightarrow> Some r | _ \<Rightarrow> None))"

definition exito_openaq :: "mundo \<Rightarrow> nat \<Rightarrow> string \<Rightarrow> estacion_info \<Rightarrow> (frame \<times> tabla) option" where
  \<comment> \<open>the same for the REST source, asked with the credential of the station's position\<close>
  "exito_openaq w idx estacion info =
     (case get_openaq_data (api_openaq w) (openaq info) (API_KEYS ! (idx mod length API_KEYS)) of
        Inl e \<Rightarrow> None
      | Inr (df, ds) \<Rightarrow>
          (case procesar ''OPENAQ'' estacion df of Inr (Some r) \<Rightarrow> Some r | _ \<Rightarrow> None))"

definition exito :: "mundo \<Rightarrow> nat \<Rightarrow> string \<Rightarrow> string \<Rightarrow> (frame \<times> tabla) option" where
  \<comment> \<open>the non-empty success of the source with the given tag at a station of the catalogue\<close>
  "exito w idx estacion fuente =
     (case map_of ESTACIONES estacion of
        None \<Rightarrow> None
      | Some info \<Rightarrow>
          if fuente = ''SINAICA'' then exito_sinaica w estacion info
          else if fuente = ''OPENAQ'' then exito_openaq w idx estacion info
          else None)"

definition orden_fuentes :: "string list" where
  \<comment> \<open>the order in which the scan asks the sources when both are requested\<close>
  "orden_fuentes = [''SINAICA'', ''OPENAQ'']"

definition primaria_spec :: "mundo \<Rightarrow> nat \<Rightarrow> string \<Rightarrow> string option" where
  \<comment> \<open>the specification's primary source: the first source, in request order, with a
      non-empty success\<close>
  "primaria_spec w idx estacion = find (\<lambda>fuente. exito w idx estacion fuente \<noteq> None) orden_fuentes"

definition llamadas_de :: "string \<Rightarrow> (string \<times> nat) list" where
  \<comment> \<open>the two fetches of a station\<close>
  "llamadas_de estacion =
     (case map_of ESTACIONES estacion of
        None \<Rightarrow> []
      | Some info \<Rightarrow> [(''SINAICA'', sinaica info), (''OPENAQ'', openaq info)])"

definition tablas_de :: "mundo \<Rightarrow> nat \<Rightarrow> string \<Rightarrow> tabla list" where
  \<comment> \<open>the tables of the non-empty successes of a station, in request order\<close>
  "tablas_de w idx estacion =
     List.map_filter (\<lambda>fuente. map_option snd (exito w idx estacion fuente)) orden_fuentes"

definition primaria_ok :: "mundo \<Rightarrow> nat \<Rightarrow> string \<Rightarrow> entrada_mapa option \<Rightarrow> bool" where
  \<comment> \<open>an entry of \<^verbatim>\<open>datos_para_mapa\<close> agrees with the specification's primary source: it is
      there exactly when some source succeeded, carries that source's tag and was built from
      that source's frame\<close>
  "primaria_ok w idx estacion x =
     (map_option em_fuente x = primaria_spec w idx estacion
      \<and> (case x of
           None \<Rightarrow> True
         | Some en \<Rightarrow>
             (case exito w idx estacion (em_fuente en) of
                None \<Rightarrow> False
              | Some (d, t) \<Rightarrow> entrada_de (em_fuente en) d = Inr en)))"


subsection \<open>Example inputs\<close>

definition frame_ejemplo :: frame where
  \<comment> \<open>CO = 4.0 and O3 = 0.10 at the same (fecha, hora)\<close>
  "frame_ejemplo =
     \<lparr>columnas = [''CO'', ''O3''],
      filas = [((''2024-05-01'', 12), [(''CO'', Num 4.0), (''O3'', Num 0.10)])]\<rparr>"

definition pagina_solo_meteo :: pagina where
  \<comment> \<open>a page without the pollutant blob, whose weather blob has one temperature row, a null
      row and a malformed row\<close>
  "pagina_solo_meteo =
     \<lparr>conts = None,
      meteo = Some (JsonDict (map_of
        [(''TMP'', [JNull,
                    JObj \<lparr>parametro = Some ''TMP'', fecha = Some ''2024-05-01'', hora = Some 12,
                          valorAct = Some 21.5\<rparr>,
                    JOtro])]))\<rparr>"

definition medicion_ejemplo :: "string \<Rightarrow> rat \<Rightarrow> medicion" where
  "medicion_ejemplo p v =
     \<lparr>parameter_name = Valor p, latest_value = Valor v,
      latest_datetime_local = Valor (''2024-05-01'', 12)\<rparr>"

definition red_sensor_falla :: red_openaq where
  \<comment> \<open>two sensors listed; sensor 1 answers CO = 4.0, the call for sensor 2 answers HTTP 500\<close>
  "red_sensor_falla =
     \<lparr>locations = (\<lambda>estId key. Respuesta 200 (Json (Some [\<lparr>sensors = Some [Some 1, Some 2]\<rparr>]))),
      sensores_api = (\<lambda>sensor_id key.
        if sensor_id = 1 then Respuesta 200 (Json (Some [medicion_ejemplo ''co'' 4.0]))
        else Respuesta 500 JsonMalo)\<rparr>"

definition mundo_caido :: mundo where
  \<comment> \<open>every page request fails; the REST source lists two sensors and the second call fails\<close>
  "mundo_caido = \<lparr>web_sinaica = (\<lambda>estId. FalloRed), api_openaq = red_sensor_falla\<rparr>"

definition pagina_co_o3 :: pagina where
  \<comment> \<open>a page whose pollutant blob has CO = 4.0 and O3 = 0.10 for the same (fecha, hora)\<close>
  "pagina_co_o3 =
     \<lparr>conts = Some (JsonDict (map_of
        [(''CO'', [JObj \<lparr>parametro = Some ''CO'', fecha = Some ''2024-05-01'', hora = Some 12,
                          valorAct = Some 4.0\<rparr>]),
         (''O3'', [JObj \<lparr>parametro = Some ''O3'', fecha = Some ''2024-05-01'', hora = Some 12,
                          valorAct = Some 0.10\<rparr>])])),
      meteo = None\<rparr>"

definition red_un_sensor :: red_openaq where
  \<comment> \<open>one sensor listed, which answers CO = 4.0\<close>
  "red_un_sensor =
     \<lparr>locations = (\<lambda>estId key. Respuesta 200 (Json (Some [\<lparr>sensors = Some [Some 1]\<rparr>]))),
      sensores_api = (\<lambda>sensor_id key. Respuesta 200 (Json (Some [medicion_ejemplo ''co'' 4.0])))\<rparr>"

definition mundo_ejemplo :: mundo where
  \<comment> \<open>both sources answer with data\<close>
  "mundo_ejemplo = \<lparr>web_sinaica = (\<lambda>estId. Pagina pagina_co_o3), api_openaq = red_un_sensor\<rparr>"

definition mundo_sin_sinaica :: mundo where
  \<comment> \<open>the pages carry no blob; the REST source answers with data\<close>
  "mundo_sin_sinaica =
     \<lparr>web_sinaica = (\<lambda>estId. Pagina \<lparr>conts = None, meteo = None\<rparr>), api_openaq = red_un_sensor\<rparr>"

definition frame_merced_sinaica :: frame where
  \<comment> \<open>the evaluated frame of the example page, tagged for the station Merced\<close>
  "frame_merced_sinaica =
     \<lparr>columnas = [''CO'', ''O3'', ''calidad_CO'', ''calidad_O3'', ''calidad_global'', ''fuente'',
                  ''estacion''],
      filas = [((''2024-05-01'', 12),
                [(''CO'', Num 4.0), (''O3'', Num 0.10), (''calidad_CO'', Txt ''Buena''),
                 (''calidad_O3'', Txt ''Mala''), (''calidad_global'', Txt ''Mala''),
                 (''fuente'', Txt ''SINAICA''), (''estacion'', Txt ''Merced'')])]\<rparr>"

definition tabla_merced_sinaica :: tabla where
  "tabla_merced_sinaica =
     \<lparr>t_columnas = [''fecha'', ''hora'', ''CO'', ''O3'', ''calidad_CO'', ''calidad_O3'',
                    ''calidad_global'', ''fuente'', ''estacion''],
      t_filas = [[(''fecha'', Txt ''2024-05-01''), (''hora'', Num 12), (''CO'', Num 4.0),
                  (''O3'', Num 0.10), (''calidad_CO'', Txt ''Buena''),
                  (''calidad_O3'', Txt ''Mala''), (''calidad_global'', Txt ''Mala''),
                  (''fuente'', Txt ''SINAICA''), (''estacion'', Txt ''Merced'')]]\<rparr>"

definition frame_un_sensor :: frame where
  \<comment> \<open>the frame fetched from the one-sensor REST answer\<close>
  "frame_un_sensor =
     \<lparr>columnas = [''CO''], filas = [((''2024-05-01'', 12), [(''CO'', Num 4.0)])]\<rparr>"

definition frame_merced_openaq :: frame where
  \<comment> \<open>the evaluated frame of the one-sensor REST answer, tagged for the station Merced\<close>
  "frame_merced_openaq =
     \<lparr>columnas = [''CO'', ''calidad_CO'', ''calidad_global'', ''fuente'', ''estacion''],
      filas = [((''2024-05-01'', 12),
                [(''CO'', Num 4.0), (''calidad_CO'', Txt ''Buena''),
                 (''calidad_global'', Txt ''Buena''), (''fuente'', Txt ''OPENAQ''),
                 (''estacion'', Txt ''Merced'')])]\<rparr>"

definition tabla_merced_openaq :: tabla where
  "tabla_merced_openaq =
     \<lparr>t_columnas = [''fecha'', ''hora'', ''CO'', ''calidad_CO'', ''calidad_global'', ''fuente'',
                    ''estacion''],
      t_filas = [[(''fecha'', Txt ''2024-05-01''), (''hora'', Num 12), (''CO'', Num 4.0),
                  (''calidad_CO'', Txt ''Buena''), (''calidad_global'', Txt ''Buena''),
                  (''fuente'', Txt ''OPENAQ''), (''estacion'', Txt ''Merced'')]]\<rparr>"




definition frame_nox :: frame where
  \<comment> \<open>the frame fetched from the page with NOx\<close>
  "frame_nox =
     \<lparr>columnas = [''NOx''], filas = [((''2024-05-01'', 12), [(''NOx'', Num 0.5)])]\<rparr>"

definition internet_fijo :: internet where
  \<comment> \<open>an upstream that answers the same at all times\<close>
  "internet_fijo = \<lparr>paginas = (\<lambda>now. web_sinaica mundo_ejemplo), rest = (\<lambda>now. red_un_sensor)\<rparr>"

definition frame_nox_evaluado :: frame where
  "frame_nox_evaluado =
     \<lparr>columnas = [''NOx'', ''calidad_global''],
      filas = [((''2024-05-01'', 12), [(''NOx'', Num 0.5), (''calidad_global'', Nada)])]\<rparr>"



definition pagina_sin_blobs :: pagina where
  "pagina_sin_blobs = \<lparr>conts = None, meteo = None\<rparr>"


definition frame_ejemplo_evaluado :: frame where
  "frame_ejemplo_evaluado =
     \<lparr>columnas = [''CO'', ''O3'', ''calidad_CO'', ''calidad_O3'', ''calidad_global''],
      filas = [((''2024-05-01'', 12),
                [(''CO'', Num 4.0), (''O3'', Num 0.10), (''calidad_CO'', Txt ''Buena''),
                 (''calidad_O3'', Txt ''Mala''), (''calidad_global'', Txt ''Mala'')])]\<rparr>"

subsection \<open>The threshold functions, characterised\<close>

lemma calidad_co_tiers:
  "(calidad_co v = Some ''Buena'') = (\<exists>x. v = Some x \<and> x \<le> 5.5)"
  "(calidad_co v = Some ''Regular'') = (\<exists>x. v = Some x \<and> 5.5 < x \<and> x \<le> 11)"
  "(calidad_co v = Some ''Mala'') = (\<exists>x. v = Some x \<and> 11 < x)"
  "(calidad_co v = None) = (v = None)"
  by (auto simp: calidad_co_def split: option.splits)

lemma calidad_o3_tiers:
  "(calidad_o3 v = Some ''Buena'') = (\<exists>x. v = Some x \<and> x \<le> 0.055)"
  "(calidad_o3 v = Some ''Regular'') = (\<exists>x. v = Some x \<and> 0.055 < x \<and> x \<le> 0.095)"
  "(calidad_o3 v = Some ''Mala'') = (\<exists>x. v = Some x \<and> 0.095 < x)"
  "(calidad_o3 v = None) = (v = None)"
  by (auto simp: calidad_o3_def split: option.splits)

lemma calidad_no2_tiers:
  "(calidad_no2 v = Some ''Buena'') = (\<exists>x. v = Some x \<and> x \<le> 0.10)"
  "(calidad_no2 v = Some ''Regular'') = (\<exists>x. v = Some x \<and> 0.10 < x \<and> x \<le> 0.21)"
  "(calidad_no2 v = Some ''Mala'') = (\<exists>x. v = Some x \<and> 0.21 < x)"
  "(calidad_no2 v = None) = (v = None)"
  by (auto simp: calidad_no2_def split: option.splits)

lemma calidad_nox_tiers:
  "(calidad_nox v = Some ''Buena'') = (\<exists>x. v = Some x \<and> x \<le> 0.10)"
  "(calidad_nox v = Some ''Regular'') = (\<exists>x. v = Some x \<and> 0.10 < x \<and> x \<le> 0.20)"
  "(calidad_nox v = Some ''Mala'') = (\<exists>x. v = Some x \<and> 0.20 < x)"
  "(calidad_nox v = None) = (v = None)"
  by (auto simp: calidad_nox_def split: option.splits)

lemma calidad_no_tiers:
  "(calidad_no v = Some ''Buena'') = (\<exists>x. v = Some x \<and> x \<le> 0.05)"
  "(calidad_no v = Some ''Regular'') = (\<exists>x. v = Some x \<and> 0.05 < x \<and> x \<le> 0.15)"
  "(calidad_no v = Some ''Mala'') = (\<exists>x. v = Some x \<and> 0.15 < x)"
  "(calidad_no v = None) = (v = None)"
  by (auto simp: calidad_no_def split: option.splits)

lemma calidad_boundaries:
  "calidad_co (Some 5.5) = Some ''Buena''" "calidad_co (Some 5.6) = Some ''Regular''"
  "calidad_co (Some 11.0) = Some ''Regular''" "calidad_co (Some 11.1) = Some ''Mala''"
  "calidad_o3 (Some 0.055) = Some ''Buena''" "calidad_o3 (Some 0.095) = Some ''Regular''"
  "calidad_no2 (Some 0.10) = Some ''Buena''" "calidad_no2 (Some 0.21) = Some ''Regular''"
  "calidad_nox (Some 0.10) = Some ''Buena''" "calidad_nox (Some 0.20) = Some ''Regular''"
  "calidad_no (Some 0.05) = Some ''Buena''" "calidad_no (Some 0.15) = Some ''Regular''"
  by (simp_all add: calidad_co_def calidad_o3_def calidad_no2_def calidad_nox_def calidad_no_def)

text \<open>
  Claim C1. Each of the five per-pollutant classifiers is a threshold function of its
  argument alone: it answers Good (\<^verbatim>\<open>"Buena"\<close>) exactly for a present value at most the
  Good bound (CO 5.5, O3 0.055, NO2 0.10, NOx 0.10, NO 0.05), Moderate (\<^verbatim>\<open>"Regular"\<close>)
  exactly for a present value above the Good bound and at most the Moderate bound
  (CO 11, O3 0.095, NO2 0.21, NOx 0.20, NO 0.15), Poor (\<^verbatim>\<open>"Mala"\<close>) exactly for a present
  value above the Moderate bound, and Unknown (\<^verbatim>\<open>None\<close>) exactly for an absent value; the
  bounds themselves fall in the lower tier.
\<close>

theorem classifier_thresholds:
  "((calidad_co v = Some ''Buena'') = (\<exists>x. v = Some x \<and> x \<le> 5.5))
   \<and> ((calidad_co v = Some ''Regular'') = (\<exists>x. v = Some x \<and> 5.5 < x \<and> x \<le> 11))
   \<and> ((calidad_co v = Some ''Mala'') = (\<exists>x. v = Some x \<and> 11 < x))
   \<and> ((calidad_co v = None) = (v = None))
   \<and> ((calidad_o3 v = Some ''Buena'') = (\<exists>x. v = Some x \<and> x \<le> 0.055))
   \<and> ((calidad_o3 v = Some ''Regular'') = (\<exists>x. v = Some x \<and> 0.055 < x \<and> x \<le> 0.095))
   \<and> ((calidad_o3 v = Some ''Mala'') = (\<exists>x. v = Some x \<and> 0.095 < x))
   \<and> ((calidad_o3 v = None) = (v = None))
   \<and> ((calidad_no2 v = Some ''Buena'') = (\<exists>x. v = Some x \<and> x \<le> 0.10))
   \<and> ((calidad_no2 v = Some ''Regular'') = (\<exists>x. v = Some x \<and> 0.10 < x \<and> x \<le> 0.21))
   \<and> ((calidad_no2 v = Some ''Mala'') = (\<exists>x. v = Some x \<and> 0.21 < x))
   \<and> ((calidad_no2 v = None) = (v = None))
   \<and> ((calidad_nox v = Some ''Buena'') = (\<exists>x. v = Some x \<and> x \<le> 0.10))
   \<and> ((calidad_nox v = Some ''Regular'') = (\<exists>x. v = Some x \<and> 0.10 < x \<and> x \<le> 0.20))
   \<and> ((calidad_nox v = Some ''Mala'') = (\<exists>x. v = Some x \<and> 0.20 < x))
   \<and> ((calidad_nox v = None) = (v = None))
   \<and> ((calidad_no v = Some ''Buena'') = (\<exists>x. v = Some x \<and> x \<le> 0.05))
   \<and> ((calidad_no v = Some ''Regular'') = (\<exists>x. v = Some x \<and> 0.05 < x \<and> x \<le> 0.15))
   \<and> ((calidad_no v = Some ''Mala'') = (\<exists>x. v = Some x \<and> 0.15 < x))
   \<and> ((calidad_no v = None) = (v = None))
   \<and> calidad_co (Some 5.5) = Some ''Buena'' \<and> calidad_co (Some 5.6) = Some ''Regular''
   \<and> calidad_co (Some 11.0) = Some ''Regular'' \<and> calidad_co (Some 11.1) = Some ''Mala''
   \<and> calidad_o3 (Some 0.055) = Some ''Buena'' \<and> calidad_o3 (Some 0.095) = Some ''Regular''
   \<and> calidad_no2 (Some 0.10) = Some ''Buena'' \<and> calidad_no2 (Some 0.21) = Some ''Regular''
   \<and> calidad_nox (Some 0.10) = Some ''Buena'' \<and> calidad_nox (Some 0.20) = Some ''Regular''
   \<and> calidad_no (Some 0.05) = Some ''Buena'' \<and> calidad_no (Some 0.15) = Some ''Regular''"
  by (intro conjI calidad_co_tiers calidad_o3_tiers calidad_no2_tiers calidad_nox_tiers
      calidad_no_tiers calidad_boundaries)


subsection \<open>The overall rating\<close>

lemma luego_simps [simp]: "luego (Inl e) f = Inl e" "luego (Inr x) f = f x"
  by (simp_all add: luego_def)

lemma luego_Inr: "luego m f = Inr y \<Longrightarrow> \<exists>x. m = Inr x \<and> f x = Inr y"
  by (cases m) simp_all

lemma max_por_mem: "max_por k b xs \<in> set (b # xs)"
  by (induction xs arbitrary: b) (simp, force)

lemma max_por_ge_all: "\<forall>x \<in> set (b # xs). k x \<le> k (max_por k b xs)"
proof (induction xs arbitrary: b)
  case Nil
  then show ?case by simp
next
  case (Cons y ys)
  let ?b = "if k b < k y then y else b"
  have step: "\<forall>z \<in> set (?b # ys). k z \<le> k (max_por k ?b ys)"
    by (rule Cons.IH)
  have "k b \<le> k ?b" "k y \<le> k ?b" by auto
  moreover have "k ?b \<le> k (max_por k ?b ys)" using step by simp
  ultimately have "k b \<le> k (max_por k ?b ys)" "k y \<le> k (max_por k ?b ys)"
    by linarith+
  moreover have "\<forall>x \<in> set ys. k x \<le> k (max_por k ?b ys)" using step by simp
  ultimately show ?case by simp
qed

lemma max_por_ge: "x \<in> set (b # xs) \<Longrightarrow> k x \<le> k (max_por k b xs)"
  using max_por_ge_all [of b xs k] by blast

lemma calidad_global_worst:
  assumes "calidad_global row = Inr g"
  shows "(conocidas row = [] \<longrightarrow> g = Nada)
       \<and> (conocidas row \<noteq> [] \<longrightarrow> g \<in> set (conocidas row)
            \<and> (\<exists>n. orden g = Some n \<and> (\<forall>c \<in> set (conocidas row). \<exists>m. orden c = Some m \<and> m \<le> n)))"
proof (cases "conocidas row")
  case Nil
  then show ?thesis using assms by (simp add: calidad_global_def)
next
  case (Cons c cs)
  let ?k = "\<lambda>x. the (orden x)"
  from assms Cons have ok: "list_all (\<lambda>x. orden x \<noteq> None) (c # cs)" and g: "g = max_por ?k c cs"
    by (auto simp: calidad_global_def split: if_splits)
  have mem: "g \<in> set (c # cs)" unfolding g by (rule max_por_mem)
  have dom: "\<And>x. x \<in> set (c # cs) \<Longrightarrow> \<exists>m. orden x = Some m"
    using ok by (auto simp: list_all_iff)
  obtain n where n: "orden g = Some n" using dom mem by blast
  have "\<forall>x \<in> set (c # cs). \<exists>m. orden x = Some m \<and> m \<le> n"
  proof
    fix x assume x: "x \<in> set (c # cs)"
    then obtain m where m: "orden x = Some m" using dom by blast
    have "?k x \<le> ?k g" unfolding g using x by (rule max_por_ge)
    then show "\<exists>m. orden x = Some m \<and> m \<le> n" using m n by simp
  qed
  then show ?thesis using Cons mem n by simp
qed

lemma globales_all2: "globales rows = Inr gs \<Longrightarrow> list_all2 (\<lambda>r g. calidad_global r = Inr g) rows gs"
proof (induction rows arbitrary: gs)
  case Nil
  then show ?case by simp
next
  case (Cons r rs)
  from Cons.prems obtain g gs' where "calidad_global r = Inr g" "globales rs = Inr gs'" "gs = g # gs'"
    by (auto dest!: luego_Inr)
  then show ?case using Cons.IH by simp
qed

lemma evaluar_Some:
  assumes "evaluar_calidad_aire df = Inr (Some d')"
  shows "\<exists>d5 gs. globales (map snd (filas d5)) = Inr gs \<and> d' = set_columna ''calidad_global'' gs d5"
proof -
  from assms obtain d where d: "df = Some d" "\<not> vacio d"
    by (auto simp: evaluar_calidad_aire_def split: option.splits if_splits)
  from assms d show ?thesis
    by (auto simp: evaluar_calidad_aire_def dest!: luego_Inr)
qed

lemma conocidas_update_global [simp]: "conocidas (AList.update ''calidad_global'' g row) = conocidas row"
  by (simp add: conocidas_def etiquetas_calidad_def fila_get_def update_conv')

lemma fila_get_update_same [simp]: "fila_get (AList.update c g row) c = g"
  by (simp add: fila_get_def update_conv')

lemma filas_set_columna:
  assumes "(i, row') \<in> set (filas (set_columna c gs d))"
    and "list_all2 P (map snd (filas d)) gs"
  shows "\<exists>row g. row' = AList.update c g row \<and> P row g"
proof -
  from assms(1) obtain i0 row g where z: "((i0, row), g) \<in> set (zip (filas d) gs)" and r: "row' = AList.update c g row"
    by (auto simp: set_columna_def)
  from z obtain j where j: "j < length (filas d)" "j < length gs" "filas d ! j = (i0, row)" "gs ! j = g"
    by (auto simp: set_zip)
  from assms(2) j have "P row g"
    by (auto simp: list_all2_conv_all_nth)
  then show ?thesis using r by blast
qed

text \<open>
  Claim C2. In every row of an evaluated frame the overall rating (column
  \<^verbatim>\<open>calidad_global\<close>) is the worst, under Buena < Regular < Mala, of the known ratings of
  that row: of the cells that are not \<^verbatim>\<open>None\<close> among the five per-pollutant rating columns
  (PM10, PM2.5 and SO2 have no rating column). It is one of them and no known rating ranks
  above it; when no rating is known it is \<^verbatim>\<open>None\<close> (Unknown). In particular
  overall(CO: Good, O3: Poor, NO2: Unknown) = Poor and overall of no ratings is Unknown.
\<close>

theorem overall_is_worst_known:
  "(evaluar_calidad_aire df = Inr (Some d') \<and> (i, row) \<in> set (filas d') \<longrightarrow>
      (conocidas row = [] \<longrightarrow> fila_get row ''calidad_global'' = Nada)
    \<and> (conocidas row \<noteq> [] \<longrightarrow> fila_get row ''calidad_global'' \<in> set (conocidas row)
          \<and> (\<exists>n. orden (fila_get row ''calidad_global'') = Some n
                \<and> (\<forall>c \<in> set (conocidas row). \<exists>m. orden c = Some m \<and> m \<le> n))))
   \<and> calidad_global [(''calidad_CO'', Txt ''Buena''), (''calidad_O3'', Txt ''Mala''), (''calidad_NO2'', Nada)]
       = Inr (Txt ''Mala'')
   \<and> calidad_global [] = Inr Nada"
proof -
  have a: "calidad_global [] = Inr Nada" by code_simp
  have b: "calidad_global [(''calidad_CO'', Txt ''Buena''), (''calidad_O3'', Txt ''Mala''), (''calidad_NO2'', Nada)]
       = Inr (Txt ''Mala'')" by code_simp
  have c: "(conocidas row = [] \<longrightarrow> fila_get row ''calidad_global'' = Nada)
    \<and> (conocidas row \<noteq> [] \<longrightarrow> fila_get row ''calidad_global'' \<in> set (conocidas row)
          \<and> (\<exists>n. orden (fila_get row ''calidad_global'') = Some n
                \<and> (\<forall>c \<in> set (conocidas row). \<exists>m. orden c = Some m \<and> m \<le> n)))"
    if ev: "evaluar_calidad_aire df = Inr (Some d')" and mem: "(i, row) \<in> set (filas d')"
  proof -
    from evaluar_Some [OF ev] obtain d5 gs where
      gs: "globales (map snd (filas d5)) = Inr gs" and d': "d' = set_columna ''calidad_global'' gs d5"
      by blast
    from filas_set_columna [OF mem [unfolded d'] globales_all2 [OF gs]]
    obtain r0 g where row: "row = AList.update ''calidad_global'' g r0" and g: "calidad_global r0 = Inr g"
      by blast
    from calidad_global_worst [OF g] show ?thesis
      unfolding row by simp
  qed
  from a b c show ?thesis by blast
qed


theorem overall_is_worst_known_witness:
  "evaluar_calidad_aire (Some frame_ejemplo) = Inr (Some frame_ejemplo_evaluado)
   \<and> ((''2024-05-01'', 12), snd (hd (filas frame_ejemplo_evaluado))) \<in> set (filas frame_ejemplo_evaluado)
   \<and> conocidas (snd (hd (filas frame_ejemplo_evaluado))) = [Txt ''Buena'', Txt ''Mala'']
   \<and> fila_get (snd (hd (filas frame_ejemplo_evaluado))) ''calidad_global'' = Txt ''Mala''
   \<and> fila_get (snd (hd (filas frame_ejemplo_evaluado))) ''calidad_global''
        \<in> set (conocidas (snd (hd (filas frame_ejemplo_evaluado))))
   \<and> evaluar_calidad_aire (Some frame_nox) = Inr (Some frame_nox_evaluado)
   \<and> ((''2024-05-01'', 12), snd (hd (filas frame_nox_evaluado))) \<in> set (filas frame_nox_evaluado)
   \<and> conocidas (snd (hd (filas frame_nox_evaluado))) = []
   \<and> fila_get (snd (hd (filas frame_nox_evaluado))) ''calidad_global'' = Nada"
proof -
  let ?r = "snd (hd (filas frame_ejemplo_evaluado))"
  let ?n = "snd (hd (filas frame_nox_evaluado))"
  have e: "evaluar_calidad_aire (Some frame_ejemplo) = Inr (Some frame_ejemplo_evaluado)"
    by code_simp
  have m: "((''2024-05-01'', 12), ?r) \<in> set (filas frame_ejemplo_evaluado)"
    by (simp add: frame_ejemplo_evaluado_def)
  have k: "conocidas ?r = [Txt ''Buena'', Txt ''Mala'']"
    by code_simp
  have g: "fila_get ?r ''calidad_global'' = Txt ''Mala''"
    by code_simp
  from overall_is_worst_known [of "Some frame_ejemplo" frame_ejemplo_evaluado "(''2024-05-01'', 12)" ?r]
    e m k
  have 1: "fila_get ?r ''calidad_global'' \<in> set (conocidas ?r)" by simp
  have e': "evaluar_calidad_aire (Some frame_nox) = Inr (Some frame_nox_evaluado)"
    by code_simp
  have m': "((''2024-05-01'', 12), ?n) \<in> set (filas frame_nox_evaluado)"
    by (simp add: frame_nox_evaluado_def)
  have k': "conocidas ?n = []"
    by code_simp
  from overall_is_worst_known [of "Some frame_nox" frame_nox_evaluado "(''2024-05-01'', 12)" ?n]
    e' m' k'
  have 2: "fila_get ?n ''calidad_global'' = Nada" by simp
  from e m k g 1 e' m' k' 2 show ?thesis by simp
qed


subsection \<open>The scraped source: rows, blobs and the pivot\<close>

lemma observacion_fila_nula [simp]: "observacion (fila_nula key) = None"
  by (simp add: observacion_def fila_nula_def)

lemma es_objeto_simps [simp]: "es_objeto JNull = False" "es_objeto (JObj r) = True" "es_objeto JOtro = False"
  by (simp_all add: es_objeto_def)

lemma map_filter_app: "List.map_filter f (xs @ ys) = List.map_filter f xs @ List.map_filter f ys"
  by (simp add: List.map_filter_def)

lemma obs_filas_de_limpias:
  "List.map_filter observacion (filas_de key (filter es_objeto rows))
   = List.map_filter observacion (filas_de key rows)"
proof (induction rows)
  case Nil
  show ?case by simp
next
  case (Cons r rows)
  then show ?case
    by (cases r) (simp_all split: option.splits)
qed

lemma tablas_limpias:
  "map (List.map_filter observacion) (tablas claves (\<lambda>key. map_option (filter es_objeto) (d key)))
   = map (List.map_filter observacion) (tablas claves d)"
proof (induction claves)
  case Nil
  show ?case by (simp add: tablas_def)
next
  case (Cons k ks)
  then show ?case
    by (cases "d k") (simp_all add: tablas_def obs_filas_de_limpias)
qed

lemma map_filter_concat:
  "List.map_filter f (concat xss) = concat (map (List.map_filter f) xss)"
  by (induction xss) (simp_all add: map_filter_app)

lemma pivot_table_cong:
  "List.map_filter observacion rs = List.map_filter observacion rs' \<Longrightarrow> pivot_table rs = pivot_table rs'"
  by (simp add: pivot_table_def)

lemma pivot_concat_cong:
  assumes "map (List.map_filter observacion) dfs = map (List.map_filter observacion) dfs'"
  shows "pivot_table (concat dfs) = pivot_table (concat dfs')"
  by (rule pivot_table_cong) (simp add: map_filter_concat assms)

lemma leer_blob_limpiar:
  "(\<exists>e. leer_blob claves (map_option limpiar b) = Inl e \<and> leer_blob claves b = Inl e)
   \<or> (\<exists>dfs dfs'. leer_blob claves (map_option limpiar b) = Inr dfs' \<and> leer_blob claves b = Inr dfs
        \<and> map (List.map_filter observacion) dfs' = map (List.map_filter observacion) dfs)"
proof (cases b)
  case None
  then show ?thesis by (simp add: leer_blob_def)
next
  case (Some bl)
  then show ?thesis
    by (cases bl) (simp_all add: leer_blob_def limpiar_def tablas_limpias)
qed

lemma cuerpo_limpio:
  "get_sinaica_cuerpo (Pagina (limpiar_pagina pg)) = get_sinaica_cuerpo (Pagina pg)"
proof -
  have nil: "(xs = []) = (ys = [])" if "map f xs = map f ys" for xs ys :: "registro list list" and f :: "registro list \<Rightarrow> (indice \<times> string \<times> rat) list"
    using that by (metis map_is_Nil_conv)
  from leer_blob_limpiar [of claves_conts "conts pg"] leer_blob_limpiar [of claves_meteo "meteo pg"]
  show ?thesis
  proof (elim disjE exE conjE)
    fix a b a' b'
    assume 1: "leer_blob claves_conts (map_option limpiar (conts pg)) = Inr a'" "leer_blob claves_conts (conts pg) = Inr a"
      "map (List.map_filter observacion) a' = map (List.map_filter observacion) a"
    and 2: "leer_blob claves_meteo (map_option limpiar (meteo pg)) = Inr b'" "leer_blob claves_meteo (meteo pg) = Inr b"
      "map (List.map_filter observacion) b' = map (List.map_filter observacion) b"
    have m: "map (List.map_filter observacion) (a' @ b') = map (List.map_filter observacion) (a @ b)"
      using 1 2 by simp
    have e: "(a' @ b' = []) = (a @ b = [])" using nil [OF m] .
    have p: "pivot_table (concat (a' @ b')) = pivot_table (concat (a @ b))"
      using m by (rule pivot_concat_cong)
    show ?thesis using e p
      by (simp add: get_sinaica_cuerpo_def limpiar_pagina_def 1 2 del: append_is_Nil_conv)
  qed (simp_all add: get_sinaica_cuerpo_def limpiar_pagina_def)
qed

lemma cuerpo_raises_iff:
  "(\<exists>e. get_sinaica_cuerpo (Pagina pg) = Inl e) = (conts pg = Some JsonInvalido \<or> meteo pg = Some JsonInvalido)"
  by (auto simp: get_sinaica_cuerpo_def leer_blob_def luego_def split: option.splits blob.splits sum.splits)


lemma obs_filas_de_objetos:
  "List.map_filter observacion (filas_de key rows) = List.map_filter observacion (objetos rows)"
proof (induction rows)
  case Nil
  show ?case by (simp add: objetos_def)
next
  case (Cons r rows)
  then show ?case
    by (cases r) (simp_all add: objetos_def split: option.splits)
qed

lemma obs_filter_utiles:
  "List.map_filter observacion (filter (\<lambda>r. observacion r \<noteq> None) rs) = List.map_filter observacion rs"
  by (induction rs) (auto split: option.splits)

lemma obs_nil_iff: "(List.map_filter observacion rs = []) = (filter (\<lambda>r. observacion r \<noteq> None) rs = [])"
  by (induction rs) (auto split: option.splits)

lemma obs_tablas:
  "List.map_filter observacion (concat (tablas claves d))
   = List.map_filter observacion (concat (map objetos (List.map_filter d claves)))"
proof (induction claves)
  case Nil
  show ?case by (simp add: tablas_def)
next
  case (Cons k ks)
  then show ?case
    by (cases "d k") (simp_all add: tablas_def map_filter_app obs_filas_de_objetos)
qed

lemma obs_leer_blob:
  assumes "leer_blob claves b = Inr dfs"
  shows "List.map_filter observacion (concat dfs) = List.map_filter observacion (filas_utiles claves b)"
proof (cases b)
  case None
  with assms show ?thesis by (simp add: leer_blob_def filas_utiles_def)
next
  case (Some bl)
  show ?thesis
  proof (cases bl)
    case JsonInvalido
    with assms Some show ?thesis by (simp add: leer_blob_def)
  next
    case (JsonDict d)
    with assms Some have "dfs = tablas claves d" by (simp add: leer_blob_def)
    then show ?thesis
      unfolding filas_utiles_def Some JsonDict
      by (simp only: option.case blob.case obs_tablas obs_filter_utiles)
  qed
qed

lemma sort_Nil_iff: "(sort xs = []) = (xs = [])"
  by (metis length_sort length_0_conv)

lemma vacio_pivot: "vacio (tail1 (pivot_table rs)) = (List.map_filter observacion rs = [])"
  by (auto simp: vacio_def tail1_def pivot_table_def Let_def sort_Nil_iff split: list.splits)


lemma utiles_filtradas:
  "filter (\<lambda>r. observacion r \<noteq> None) (filas_utiles claves b) = filas_utiles claves b"
  by (simp add: filas_utiles_def split: option.splits blob.splits)

lemma obs_utiles_nil_iff:
  "(List.map_filter observacion (filas_utiles claves b) = []) = (filas_utiles claves b = [])"
  by (simp only: obs_nil_iff utiles_filtradas)

lemma cuerpo_sin_invalidos:
  assumes "leer_blob claves_conts (conts pg) = Inr a" and "leer_blob claves_meteo (meteo pg) = Inr b"
  shows "get_sinaica_cuerpo (Pagina pg)
         = Inr (if a @ b = [] then None
                else Some (tail1 (pivot_table (filas_utiles claves_conts (conts pg)
                                               @ filas_utiles claves_meteo (meteo pg)))))"
proof -
  have "List.map_filter observacion (concat (a @ b))
        = List.map_filter observacion (filas_utiles claves_conts (conts pg) @ filas_utiles claves_meteo (meteo pg))"
    using obs_leer_blob [OF assms(1)] obs_leer_blob [OF assms(2)]
    by (simp add: map_filter_app)
  then have "pivot_table (concat (a @ b))
        = pivot_table (filas_utiles claves_conts (conts pg) @ filas_utiles claves_meteo (meteo pg))"
    by (rule pivot_table_cong)
  then show ?thesis
    by (simp add: get_sinaica_cuerpo_def assms del: append_is_Nil_conv)
qed

lemma utiles_nil_if_no_tables:
  assumes "leer_blob claves b = Inr []"
  shows "filas_utiles claves b = []"
  using obs_leer_blob [OF assms, symmetric] by (simp add: obs_utiles_nil_iff)

lemma leer_blob_None [simp]: "leer_blob claves None = Inr []"
  by (simp add: leer_blob_def)

lemma filas_utiles_None [simp]: "filas_utiles claves None = []"
  by (simp add: filas_utiles_def)

lemma leer_blob_utiles:
  assumes "filas_utiles claves b \<noteq> []"
  shows "\<exists>dfs. leer_blob claves b = Inr dfs \<and> dfs \<noteq> []"
proof -
  from assms obtain d where b: "b = Some (JsonDict d)"
    by (auto simp: filas_utiles_def split: option.splits blob.splits)
  then have r: "leer_blob claves b = Inr (tablas claves d)" by (simp add: leer_blob_def)
  have "tablas claves d \<noteq> []"
  proof
    assume "tablas claves d = []"
    with r have "leer_blob claves b = Inr []" by simp
    from utiles_nil_if_no_tables [OF this] assms show False by simp
  qed
  with r show ?thesis by blast
qed

lemma solo_un_blob:
  assumes "filas_utiles claves_meteo (meteo pg) \<noteq> []" and "conts pg = None"
  shows "get_sinaica_cuerpo (Pagina pg) = Inr (Some (tail1 (pivot_table (filas_utiles claves_meteo (meteo pg)))))"
    and "\<not> vacio (tail1 (pivot_table (filas_utiles claves_meteo (meteo pg))))"
proof -
  from leer_blob_utiles [OF assms(1)] obtain b where b: "leer_blob claves_meteo (meteo pg) = Inr b" "b \<noteq> []"
    by blast
  have a: "leer_blob claves_conts (conts pg) = Inr []" by (simp add: assms(2))
  from cuerpo_sin_invalidos [OF a b(1)] b(2)
  show "get_sinaica_cuerpo (Pagina pg) = Inr (Some (tail1 (pivot_table (filas_utiles claves_meteo (meteo pg)))))"
    by (simp add: assms(2))
  show "\<not> vacio (tail1 (pivot_table (filas_utiles claves_meteo (meteo pg))))"
    using assms(1) by (simp add: vacio_pivot obs_utiles_nil_iff)
qed

lemma solo_otro_blob:
  assumes "filas_utiles claves_conts (conts pg) \<noteq> []" and "meteo pg = None"
  shows "get_sinaica_cuerpo (Pagina pg) = Inr (Some (tail1 (pivot_table (filas_utiles claves_conts (conts pg)))))"
    and "\<not> vacio (tail1 (pivot_table (filas_utiles claves_conts (conts pg))))"
proof -
  from leer_blob_utiles [OF assms(1)] obtain a where a: "leer_blob claves_conts (conts pg) = Inr a" "a \<noteq> []"
    by blast
  have b: "leer_blob claves_meteo (meteo pg) = Inr []" by (simp add: assms(2))
  from cuerpo_sin_invalidos [OF a(1) b] a(2)
  show "get_sinaica_cuerpo (Pagina pg) = Inr (Some (tail1 (pivot_table (filas_utiles claves_conts (conts pg)))))"
    by (simp add: assms(2))
  show "\<not> vacio (tail1 (pivot_table (filas_utiles claves_conts (conts pg))))"
    using assms(1) by (simp add: vacio_pivot obs_utiles_nil_iff)
qed

lemma vacio_solo_sin_utiles:
  assumes "get_sinaica_cuerpo (Pagina pg) = Inr res" and "res = None \<or> (\<exists>df. res = Some df \<and> vacio df)"
  shows "filas_utiles claves_conts (conts pg) = [] \<and> filas_utiles claves_meteo (meteo pg) = []"
proof -
  from assms(1) obtain a b where a: "leer_blob claves_conts (conts pg) = Inr a"
    and b: "leer_blob claves_meteo (meteo pg) = Inr b"
    by (auto simp: get_sinaica_cuerpo_def dest!: luego_Inr)
  note r = cuerpo_sin_invalidos [OF a b]
  show ?thesis
  proof (cases "a @ b = []")
    case True
    then have "a = []" "b = []" by simp_all
    with a b show ?thesis by (simp add: utiles_nil_if_no_tables)
  next
    case False
    with r assms have "vacio (tail1 (pivot_table (filas_utiles claves_conts (conts pg) @ filas_utiles claves_meteo (meteo pg))))"
      by auto
    then show ?thesis
      by (simp add: vacio_pivot map_filter_app obs_utiles_nil_iff)
  qed
qed

lemma get_sinaica_data_Inr:
  "get_sinaica_cuerpo (web estId) = Inr df \<Longrightarrow> get_sinaica_data web estId = Inr (df, [])"
  by (simp add: get_sinaica_data_def)

lemma get_sinaica_data_sin_mensajes:
  "get_sinaica_data web estId = Inr (res, []) \<Longrightarrow> get_sinaica_cuerpo (web estId) = Inr res"
  by (auto simp: get_sinaica_data_def split: sum.splits)

text \<open>
  Claim C8. Inside a blob's row sequence an explicit null row and a malformed (non-object)
  row are skipped: the fetch on a page answers what it answers on the same page with those
  rows removed, it raises only when a present blob is not valid JSON (never because of a
  row), and the values a row sequence contributes to the pivot are exactly those of its
  well-formed rows.
\<close>

theorem null_and_malformed_rows_skipped:
  "get_sinaica_cuerpo (Pagina (limpiar_pagina pg)) = get_sinaica_cuerpo (Pagina pg)
   \<and> ((\<exists>e. get_sinaica_cuerpo (Pagina pg) = Inl e)
        = (conts pg = Some JsonInvalido \<or> meteo pg = Some JsonInvalido))
   \<and> List.map_filter observacion (filas_de key rows) = List.map_filter observacion (objetos rows)"
  using cuerpo_limpio [of pg] cuerpo_raises_iff [of pg] obs_filas_de_objetos [of key rows]
  by blast


text \<open>
  Claim C5. The two blobs are located independently. When the pollutant blob is absent and
  the weather blob has usable rows, the fetch succeeds with a non-empty frame, the last row
  of the pivot of the weather blob's usable rows alone; likewise when the weather blob is
  absent and the pollutant blob has usable rows. And a fetch that ends without an exception
  in no data (\<^verbatim>\<open>None\<close> or an empty frame) had no usable row in either blob.
\<close>

theorem blobs_located_independently:
  "(web estId = Pagina pg \<and> conts pg = None \<and> filas_utiles claves_meteo (meteo pg) \<noteq> [] \<longrightarrow>
      get_sinaica_data web estId
        = Inr (Some (tail1 (pivot_table (filas_utiles claves_meteo (meteo pg)))), [])
      \<and> \<not> vacio (tail1 (pivot_table (filas_utiles claves_meteo (meteo pg)))))
   \<and> (web estId = Pagina pg \<and> meteo pg = None \<and> filas_utiles claves_conts (conts pg) \<noteq> [] \<longrightarrow>
      get_sinaica_data web estId
        = Inr (Some (tail1 (pivot_table (filas_utiles claves_conts (conts pg)))), [])
      \<and> \<not> vacio (tail1 (pivot_table (filas_utiles claves_conts (conts pg)))))
   \<and> (web estId = Pagina pg \<and> get_sinaica_data web estId = Inr (res, [])
        \<and> (res = None \<or> (\<exists>df. res = Some df \<and> vacio df)) \<longrightarrow>
      filas_utiles claves_conts (conts pg) = [] \<and> filas_utiles claves_meteo (meteo pg) = [])"
proof -
  have 1: "get_sinaica_data web estId
        = Inr (Some (tail1 (pivot_table (filas_utiles claves_meteo (meteo pg)))), [])
      \<and> \<not> vacio (tail1 (pivot_table (filas_utiles claves_meteo (meteo pg))))"
    if "web estId = Pagina pg" "conts pg = None" "filas_utiles claves_meteo (meteo pg) \<noteq> []"
    using solo_un_blob [OF that(3) that(2)] that(1) by (simp add: get_sinaica_data_Inr)
  have 2: "get_sinaica_data web estId
        = Inr (Some (tail1 (pivot_table (filas_utiles claves_conts (conts pg)))), [])
      \<and> \<not> vacio (tail1 (pivot_table (filas_utiles claves_conts (conts pg))))"
    if "web estId = Pagina pg" "meteo pg = None" "filas_utiles claves_conts (conts pg) \<noteq> []"
    using solo_otro_blob [OF that(3) that(2)] that(1) by (simp add: get_sinaica_data_Inr)
  have 3: "filas_utiles claves_conts (conts pg) = [] \<and> filas_utiles claves_meteo (meteo pg) = []"
    if "web estId = Pagina pg" "get_sinaica_data web estId = Inr (res, [])"
      "res = None \<or> (\<exists>df. res = Some df \<and> vacio df)"
    using vacio_solo_sin_utiles [of pg res] get_sinaica_data_sin_mensajes [OF that(2)] that(1,3)
    by simp
  from 1 2 3 show ?thesis by blast
qed

theorem blobs_located_independently_witness:
  "conts pagina_solo_meteo = None
   \<and> filas_utiles claves_meteo (meteo pagina_solo_meteo) \<noteq> []
   \<and> get_sinaica_data (\<lambda>_. Pagina pagina_solo_meteo) 256
       = Inr (Some \<lparr>columnas = [''TMP''],
                    filas = [((''2024-05-01'', 12), [(''TMP'', Num 21.5)])]\<rparr>, [])
   \<and> meteo pagina_co_o3 = None
   \<and> filas_utiles claves_conts (conts pagina_co_o3) \<noteq> []
   \<and> get_sinaica_data (\<lambda>_. Pagina pagina_co_o3) 256 = Inr (Some frame_ejemplo, [])
   \<and> get_sinaica_data (\<lambda>_. Pagina pagina_sin_blobs) 256 = Inr (None, [])
   \<and> filas_utiles claves_conts (conts pagina_sin_blobs) = []
   \<and> filas_utiles claves_meteo (meteo pagina_sin_blobs) = []"
proof -
  have a: "conts pagina_solo_meteo = None" by (simp add: pagina_solo_meteo_def)
  have b: "filas_utiles claves_meteo (meteo pagina_solo_meteo) \<noteq> []" by code_simp
  have c: "tail1 (pivot_table (filas_utiles claves_meteo (meteo pagina_solo_meteo)))
           = \<lparr>columnas = [''TMP''], filas = [((''2024-05-01'', 12), [(''TMP'', Num 21.5)])]\<rparr>"
    by code_simp
  from blobs_located_independently [of "\<lambda>_. Pagina pagina_solo_meteo" 256 pagina_solo_meteo] a b c
  have 1: "get_sinaica_data (\<lambda>_. Pagina pagina_solo_meteo) 256
       = Inr (Some \<lparr>columnas = [''TMP''],
                    filas = [((''2024-05-01'', 12), [(''TMP'', Num 21.5)])]\<rparr>, [])"
    by simp
  have a': "meteo pagina_co_o3 = None" by (simp add: pagina_co_o3_def)
  have b': "filas_utiles claves_conts (conts pagina_co_o3) \<noteq> []" by code_simp
  have c': "tail1 (pivot_table (filas_utiles claves_conts (conts pagina_co_o3))) = frame_ejemplo"
    by code_simp
  from blobs_located_independently [of "\<lambda>_. Pagina pagina_co_o3" 256 pagina_co_o3] a' b' c'
  have 2: "get_sinaica_data (\<lambda>_. Pagina pagina_co_o3) 256 = Inr (Some frame_ejemplo, [])"
    by simp
  have d: "get_sinaica_data (\<lambda>_. Pagina pagina_sin_blobs) 256 = Inr (None, [])"
    by code_simp
  from blobs_located_independently [of "\<lambda>_. Pagina pagina_sin_blobs" 256 pagina_sin_blobs None] d
  have 3: "filas_utiles claves_conts (conts pagina_sin_blobs) = []
     \<and> filas_utiles claves_meteo (meteo pagina_sin_blobs) = []"
    by simp
  from a b 1 a' b' 2 d 3 show ?thesis by simp
qed



subsection \<open>The REST source: the sensor loop\<close>

lemma sensores_loop_all2:
  "sensores_loop net ss = Inr dfs \<Longrightarrow>
   list_all2 (\<lambda>s df. \<exists>sid. s = Some sid \<and> luego (pedir (net sid)) df_sensor_clean = Inr df) ss dfs"
proof (induction ss arbitrary: dfs)
  case Nil
  then show ?case by simp
next
  case (Cons s ss)
  from Cons.prems obtain sid where s: "s = Some sid"
    by (cases s) simp_all
  from Cons.prems [unfolded s] obtain data df rest where
    "pedir (net sid) = Inr data" "df_sensor_clean data = Inr df" "sensores_loop net ss = Inr rest"
    "dfs = df # rest"
    by (auto dest!: luego_Inr)
  then show ?case using Cons.IH s by simp
qed

lemma sensores_loop_falla:
  assumes "Some sid \<in> set ss" and "luego (pedir (net sid)) df_sensor_clean = Inl e"
  shows "\<exists>e'. sensores_loop net ss = Inl e'"
proof (cases "sensores_loop net ss")
  case (Inl e')
  then show ?thesis by blast
next
  case (Inr dfs)
  from sensores_loop_all2 [OF Inr] assms(1)
  obtain df sid' where "Some sid = Some sid'" "luego (pedir (net sid')) df_sensor_clean = Inr df"
    by (auto simp: list_all2_conv_all_nth in_set_conv_nth)
  with assms(2) show ?thesis by simp
qed

lemma openaq_sensor_fatal:
  assumes "luego (pedir (locations net estId key)) sensores_de = Inr ss"
    and "Some sid \<in> set ss"
    and "luego (pedir (sensores_api net sid key)) df_sensor_clean = Inl e"
  shows "\<exists>e'. get_openaq_data net estId key = Inr (None, [StError ''Error obteniendo datos OpenAQ'' e'])"
proof -
  from assms(1) obtain data where d: "pedir (locations net estId key) = Inr data" "sensores_de data = Inr ss"
    by (auto dest!: luego_Inr)
  from sensores_loop_falla [of sid ss "\<lambda>sensor_id. sensores_api net sensor_id key" e, OF assms(2) assms(3)]
  obtain e' where "sensores_loop (\<lambda>sensor_id. sensores_api net sensor_id key) ss = Inl e'" by blast
  then have "get_openaq_cuerpo net estId key = Inl e'"
    by (simp add: get_openaq_cuerpo_def d)
  then show ?thesis by (simp add: get_openaq_data_def)
qed

lemma openaq_frame_needs_all:
  assumes "get_openaq_data net estId key = Inr (Some df, ds)"
  shows "ds = [] \<and> (\<exists>ss. luego (pedir (locations net estId key)) sensores_de = Inr ss \<and> ss \<noteq> []
           \<and> (\<forall>s \<in> set ss. \<exists>sid x. s = Some sid
                  \<and> luego (pedir (sensores_api net sid key)) df_sensor_clean = Inr x))"
proof -
  from assms have c: "get_openaq_cuerpo net estId key = Inr (Some df)" and ds: "ds = []"
    by (auto simp: get_openaq_data_def split: sum.splits)
  from c obtain data ss dfs where d: "pedir (locations net estId key) = Inr data"
    "sensores_de data = Inr ss"
    "sensores_loop (\<lambda>sensor_id. sensores_api net sensor_id key) ss = Inr dfs" "dfs \<noteq> []"
    by (auto simp: get_openaq_cuerpo_def dest!: luego_Inr split: if_splits)
  from sensores_loop_all2 [OF d(3)]
  have all: "list_all2 (\<lambda>s df. \<exists>sid. s = Some sid
      \<and> luego (pedir (sensores_api net sid key)) df_sensor_clean = Inr df) ss dfs" .
  then have "length ss = length dfs" by (rule list_all2_lengthD)
  with d(4) have ne: "ss \<noteq> []" by auto
  have "\<forall>s \<in> set ss. \<exists>sid x. s = Some sid
                  \<and> luego (pedir (sensores_api net sid key)) df_sensor_clean = Inr x"
  proof
    fix s assume "s \<in> set ss"
    then obtain i where i: "i < length ss" "ss ! i = s" by (auto simp: in_set_conv_nth)
    from list_all2_nthD [OF all i(1)] i(2)
    show "\<exists>sid x. s = Some sid \<and> luego (pedir (sensores_api net sid key)) df_sensor_clean = Inr x"
      by blast
  qed
  moreover have "luego (pedir (locations net estId key)) sensores_de = Inr ss"
    by (simp add: d)
  ultimately show ?thesis using ds ne by blast
qed

text \<open>
  Claim C3, as stated, fails: the per-sensor calls are made inside the one \<^verbatim>\<open>try\<close> block of
  the fetch, so the first sensor call that raises ends the fetch. Sensor 1 answers CO = 4.0,
  the call for sensor 2 answers HTTP 500, and the fetch returns \<^verbatim>\<open>None\<close> with one
  diagnostic: no row with sensor 1's value is built.
\<close>

theorem sensor_failure_not_isolated:
  "luego (pedir (sensores_api red_sensor_falla 1 (API_KEYS ! 0))) df_sensor_clean
     = Inr [\<lparr>l_parametro = Some ''co'', l_valorAct = Some 4.0, datetime_local = Some (''2024-05-01'', 12)\<rparr>]
   \<and> pedir (sensores_api red_sensor_falla 2 (API_KEYS ! 0)) = Inl (HTTPError 500)
   \<and> get_openaq_data red_sensor_falla 10748 (API_KEYS ! 0)
       = Inr (None, [StError ''Error obteniendo datos OpenAQ'' (HTTPError 500)])"
  by code_simp

text \<open>
  Claim C3, amended. In a REST fetch the failure of any listed sensor's call (an HTTP error
  status, a failed request, an undecodable body, a payload lacking a selected column) is
  fatal to the fetch: it returns \<^verbatim>\<open>None\<close> and reports one diagnostic. A frame is returned
  only when the listing call and the call of every listed sensor succeed and at least one
  sensor is listed.
\<close>

theorem sensor_failure_is_fatal:
  "(luego (pedir (locations net estId key)) sensores_de = Inr ss \<and> Some sid \<in> set ss
      \<and> luego (pedir (sensores_api net sid key)) df_sensor_clean = Inl e \<longrightarrow>
      (\<exists>e'. get_openaq_data net estId key = Inr (None, [StError ''Error obteniendo datos OpenAQ'' e'])))
   \<and> (get_openaq_data net estId key = Inr (Some df, ds) \<longrightarrow>
        ds = [] \<and> (\<exists>ss. luego (pedir (locations net estId key)) sensores_de = Inr ss \<and> ss \<noteq> []
           \<and> (\<forall>s \<in> set ss. \<exists>sid x. s = Some sid
                  \<and> luego (pedir (sensores_api net sid key)) df_sensor_clean = Inr x)))"
  using openaq_sensor_fatal [of net estId key ss sid e] openaq_frame_needs_all [of net estId key df ds]
  by blast

theorem sensor_failure_is_fatal_witness:
  "luego (pedir (locations red_sensor_falla 10748 (API_KEYS ! 0))) sensores_de = Inr [Some 1, Some 2]
   \<and> Some 2 \<in> set [Some (1::nat), Some 2]
   \<and> luego (pedir (sensores_api red_sensor_falla 2 (API_KEYS ! 0))) df_sensor_clean = Inl (HTTPError 500)
   \<and> (\<exists>e'. get_openaq_data red_sensor_falla 10748 (API_KEYS ! 0)
              = Inr (None, [StError ''Error obteniendo datos OpenAQ'' e']))
   \<and> get_openaq_data red_un_sensor 10748 (API_KEYS ! 0) = Inr (Some frame_un_sensor, [])
   \<and> (\<exists>ss. luego (pedir (locations red_un_sensor 10748 (API_KEYS ! 0))) sensores_de = Inr ss
          \<and> ss \<noteq> []
          \<and> list_all (\<lambda>s. \<exists>sid x. s = Some sid
               \<and> luego (pedir (sensores_api red_un_sensor sid (API_KEYS ! 0))) df_sensor_clean = Inr x) ss)"
proof -
  have a: "luego (pedir (locations red_sensor_falla 10748 (API_KEYS ! 0))) sensores_de = Inr [Some 1, Some 2]"
    by code_simp
  have b: "Some 2 \<in> set [Some (1::nat), Some 2]" by simp
  have c: "luego (pedir (sensores_api red_sensor_falla 2 (API_KEYS ! 0))) df_sensor_clean = Inl (HTTPError 500)"
    by code_simp
  from sensor_failure_is_fatal [of red_sensor_falla 10748 "API_KEYS ! 0" "[Some 1, Some 2]" 2 "HTTPError 500"] a b c
  have 1: "\<exists>e'. get_openaq_data red_sensor_falla 10748 (API_KEYS ! 0)
              = Inr (None, [StError ''Error obteniendo datos OpenAQ'' e'])"
    by blast
  have d: "get_openaq_data red_un_sensor 10748 (API_KEYS ! 0) = Inr (Some frame_un_sensor, [])"
    by code_simp
  from sensor_failure_is_fatal [where net = red_un_sensor and estId = 10748 and key = "API_KEYS ! 0"
      and df = frame_un_sensor and ds = "[]"] d
  have 2: "\<exists>ss. luego (pedir (locations red_un_sensor 10748 (API_KEYS ! 0))) sensores_de = Inr ss
          \<and> ss \<noteq> []
          \<and> list_all (\<lambda>s. \<exists>sid x. s = Some sid
               \<and> luego (pedir (sensores_api red_un_sensor sid (API_KEYS ! 0))) df_sensor_clean = Inr x) ss"
    by (simp add: list_all_iff)
  from a b c 1 d 2 show ?thesis by blast
qed



subsection \<open>The fetchers catch what their bodies raise\<close>

lemma get_sinaica_data_total: "\<exists>res ds. get_sinaica_data web estId = Inr (res, ds)"
  by (cases "get_sinaica_cuerpo (web estId)") (simp_all add: get_sinaica_data_def)

lemma get_openaq_data_total: "\<exists>res ds. get_openaq_data net estId key = Inr (res, ds)"
  by (cases "get_openaq_cuerpo net estId key") (simp_all add: get_openaq_data_def)

lemma paso_total:
  assumes "estacion \<in> fst ` set ESTACIONES"
  shows "\<exists>st'. paso w sel idx estacion st = Inr st'"
proof -
  from assms have "map_of ESTACIONES estacion \<noteq> None"
    by (simp add: map_of_eq_None_iff)
  then obtain info where "map_of ESTACIONES estacion = Some info" by blast
  then show ?thesis by (simp add: paso_def Let_def)
qed

lemma escanear_desde_total:
  "set ests \<subseteq> fst ` set ESTACIONES \<Longrightarrow> \<exists>st'. escanear_desde w sel idx ests st = Inr st'"
proof (induction ests arbitrary: idx st)
  case Nil
  show ?case by simp
next
  case (Cons e es)
  from Cons.prems have "e \<in> fst ` set ESTACIONES" by simp
  from paso_total [OF this] obtain st1 where "paso w sel idx e st = Inr st1" by blast
  moreover from Cons.prems have "set es \<subseteq> fst ` set ESTACIONES" by simp
  from Cons.IH [OF this] obtain st2 where "escanear_desde w sel (Suc idx) es st1 = Inr st2" by blast
  ultimately show ?case by simp
qed

lemma sinaica_failure_modes:
  "get_sinaica_cuerpo FalloRed = Inl RequestException"
  "conts pg = Some JsonInvalido \<Longrightarrow> get_sinaica_cuerpo (Pagina pg) = Inl JSONDecodeError"
  "conts pg = None \<Longrightarrow> meteo pg = Some JsonInvalido \<Longrightarrow> get_sinaica_cuerpo (Pagina pg) = Inl JSONDecodeError"
  "conts pg = None \<Longrightarrow> meteo pg = None \<Longrightarrow> get_sinaica_cuerpo (Pagina pg) = Inr None"
  by (simp_all add: get_sinaica_cuerpo_def leer_blob_def)

lemma openaq_failure_modes:
  "locations net estId key = SinRespuesta \<Longrightarrow> get_openaq_cuerpo net estId key = Inl RequestException"
  "locations net estId key = Respuesta status b \<Longrightarrow> 400 \<le> status \<Longrightarrow> status < 600 \<Longrightarrow>
     get_openaq_cuerpo net estId key = Inl (HTTPError status)"
  "locations net estId key = Respuesta 200 JsonMalo \<Longrightarrow> get_openaq_cuerpo net estId key = Inl JSONDecodeError"
  "locations net estId key = Respuesta 200 (Json None) \<Longrightarrow> get_openaq_cuerpo net estId key = Inl KeyError"
  "locations net estId key = Respuesta 200 (Json (Some [])) \<Longrightarrow> get_openaq_cuerpo net estId key = Inl IndexError"
  by (simp_all add: get_openaq_cuerpo_def pedir_def raise_for_status_def sensores_de_def)

text \<open>
  Claim C10. Whatever the upstream answers, the two fetchers return normally: no exception
  leaves \<^verbatim>\<open>get_sinaica_data\<close> or \<^verbatim>\<open>get_openaq_data\<close>. Whenever the body raises, the result is
  \<^verbatim>\<open>None\<close> together with exactly one diagnostic naming the exception; this covers a failed
  request, an HTTP error status, a body or blob that is not valid JSON, a listing without
  the expected keys and a failing sensor call. A page without blobs gives \<^verbatim>\<open>None\<close> without
  any exception. Consequently the scan over stations of the catalogue always runs to its
  end.
\<close>

theorem fetchers_never_raise:
  "(\<exists>res ds. get_sinaica_data web estId = Inr (res, ds))
   \<and> (\<exists>res ds. get_openaq_data net estId key = Inr (res, ds))
   \<and> (get_sinaica_cuerpo (web estId) = Inl e \<longrightarrow>
        get_sinaica_data web estId = Inr (None, [StError ''Error obteniendo datos SINAICA'' e]))
   \<and> (get_openaq_cuerpo net estId key = Inl e \<longrightarrow>
        get_openaq_data net estId key = Inr (None, [StError ''Error obteniendo datos OpenAQ'' e]))
   \<and> (web estId = FalloRed \<longrightarrow> get_sinaica_cuerpo (web estId) = Inl RequestException)
   \<and> (web estId = Pagina pg \<and> conts pg = Some JsonInvalido \<longrightarrow>
        get_sinaica_cuerpo (web estId) = Inl JSONDecodeError)
   \<and> (web estId = Pagina pg \<and> conts pg = None \<and> meteo pg = Some JsonInvalido \<longrightarrow>
        get_sinaica_cuerpo (web estId) = Inl JSONDecodeError)
   \<and> (web estId = Pagina pg \<and> conts pg = None \<and> meteo pg = None \<longrightarrow>
        get_sinaica_data web estId = Inr (None, []))
   \<and> (locations net estId key = SinRespuesta \<longrightarrow>
        get_openaq_cuerpo net estId key = Inl RequestException)
   \<and> (locations net estId key = Respuesta status b \<and> 400 \<le> status \<and> status < 600 \<longrightarrow>
        get_openaq_cuerpo net estId key = Inl (HTTPError status))
   \<and> (locations net estId key = Respuesta 200 JsonMalo \<longrightarrow>
        get_openaq_cuerpo net estId key = Inl JSONDecodeError)
   \<and> (locations net estId key = Respuesta 200 (Json None) \<longrightarrow>
        get_openaq_cuerpo net estId key = Inl KeyError)
   \<and> (luego (pedir (locations net estId key)) sensores_de = Inr ss \<and> Some sid \<in> set ss
        \<and> luego (pedir (sensores_api net sid key)) df_sensor_clean = Inl e \<longrightarrow>
        (\<exists>e'. get_openaq_cuerpo net estId key = Inl e'))
   \<and> (set ests \<subseteq> fst ` set ESTACIONES \<longrightarrow> (\<exists>st. escanear w sel ests = Inr st))"
proof -
  have 1: "get_sinaica_data web estId = Inr (None, [StError ''Error obteniendo datos SINAICA'' e])"
    if "get_sinaica_cuerpo (web estId) = Inl e"
    using that by (simp add: get_sinaica_data_def)
  have 2: "get_openaq_data net estId key = Inr (None, [StError ''Error obteniendo datos OpenAQ'' e])"
    if "get_openaq_cuerpo net estId key = Inl e"
    using that by (simp add: get_openaq_data_def)
  have 3: "get_sinaica_data web estId = Inr (None, [])"
    if "web estId = Pagina pg" "conts pg = None" "meteo pg = None"
    using sinaica_failure_modes(4) [OF that(2,3)] that(1) by (simp add: get_sinaica_data_def)
  have 4: "\<exists>e'. get_openaq_cuerpo net estId key = Inl e'"
    if "luego (pedir (locations net estId key)) sensores_de = Inr ss" "Some sid \<in> set ss"
       "luego (pedir (sensores_api net sid key)) df_sensor_clean = Inl e"
    using openaq_sensor_fatal [OF that] by (auto simp: get_openaq_data_def split: sum.splits)
  have 5: "\<exists>st. escanear w sel ests = Inr st" if "set ests \<subseteq> fst ` set ESTACIONES"
    unfolding escanear_def using that by (rule escanear_desde_total)
  show ?thesis
    using get_sinaica_data_total [of web estId] get_openaq_data_total [of net estId key]
      1 2 3 4 5 sinaica_failure_modes(1) sinaica_failure_modes(2,3) [of pg]
      openaq_failure_modes [of net estId key]
    by (intro conjI impI; (elim conjE)?) (simp_all (no_asm_simp))
qed


theorem fetchers_never_raise_witness:
  "get_sinaica_cuerpo (web_sinaica mundo_caido 256) = Inl RequestException
   \<and> get_sinaica_data (web_sinaica mundo_caido) 256
       = Inr (None, [StError ''Error obteniendo datos SINAICA'' RequestException])
   \<and> get_openaq_cuerpo (api_openaq mundo_caido) 10748 (API_KEYS ! 0) = Inl (HTTPError 500)
   \<and> get_openaq_data (api_openaq mundo_caido) 10748 (API_KEYS ! 0)
       = Inr (None, [StError ''Error obteniendo datos OpenAQ'' (HTTPError 500)])
   \<and> set [''Merced'', ''Pedregal''] \<subseteq> fst ` set ESTACIONES
   \<and> (\<exists>st. escanear mundo_caido Ambas [''Merced'', ''Pedregal''] = Inr st)
   \<and> get_sinaica_cuerpo (Pagina \<lparr>conts = Some JsonInvalido, meteo = None\<rparr>) = Inl JSONDecodeError
   \<and> get_sinaica_cuerpo (Pagina \<lparr>conts = None, meteo = Some JsonInvalido\<rparr>) = Inl JSONDecodeError
   \<and> get_sinaica_data (\<lambda>estId. Pagina pagina_sin_blobs) 256 = Inr (None, [])
   \<and> get_openaq_cuerpo \<lparr>locations = (\<lambda>estId key. SinRespuesta), sensores_api = (\<lambda>sid key. SinRespuesta)\<rparr>
        10748 (API_KEYS ! 0) = Inl RequestException
   \<and> get_openaq_cuerpo \<lparr>locations = (\<lambda>estId key. Respuesta 429 JsonMalo), sensores_api = (\<lambda>sid key. SinRespuesta)\<rparr>
        10748 (API_KEYS ! 0) = Inl (HTTPError 429)
   \<and> get_openaq_cuerpo \<lparr>locations = (\<lambda>estId key. Respuesta 200 JsonMalo), sensores_api = (\<lambda>sid key. SinRespuesta)\<rparr>
        10748 (API_KEYS ! 0) = Inl JSONDecodeError
   \<and> get_openaq_cuerpo \<lparr>locations = (\<lambda>estId key. Respuesta 200 (Json None)), sensores_api = (\<lambda>sid key. SinRespuesta)\<rparr>
        10748 (API_KEYS ! 0) = Inl KeyError"
proof -
  have a: "web_sinaica mundo_caido 256 = FalloRed" by (simp add: mundo_caido_def)
  have b: "get_openaq_cuerpo (api_openaq mundo_caido) 10748 (API_KEYS ! 0) = Inl (HTTPError 500)"
    by code_simp
  have c: "set [''Merced'', ''Pedregal''] \<subseteq> fst ` set ESTACIONES"
    by (simp add: ESTACIONES_def)
  from fetchers_never_raise [where web = "web_sinaica mundo_caido" and estId = 256
      and e = RequestException and ests = "[''Merced'', ''Pedregal'']" and w = mundo_caido
      and sel = Ambas] a c
  have 1: "get_sinaica_cuerpo (web_sinaica mundo_caido 256) = Inl RequestException"
    and 2: "get_sinaica_data (web_sinaica mundo_caido) 256
       = Inr (None, [StError ''Error obteniendo datos SINAICA'' RequestException])"
    and 3: "\<exists>st. escanear mundo_caido Ambas [''Merced'', ''Pedregal''] = Inr st"
    by simp_all
  from fetchers_never_raise [where net = "api_openaq mundo_caido" and estId = 10748
      and key = "API_KEYS ! 0" and e = "HTTPError 500"] b
  have 4: "get_openaq_data (api_openaq mundo_caido) 10748 (API_KEYS ! 0)
       = Inr (None, [StError ''Error obteniendo datos OpenAQ'' (HTTPError 500)])"
    by simp
  from fetchers_never_raise [where web = "\<lambda>estId. Pagina \<lparr>conts = Some JsonInvalido, meteo = None\<rparr>"
      and estId = 256 and pg = "\<lparr>conts = Some JsonInvalido, meteo = None\<rparr>"]
  have 5: "get_sinaica_cuerpo (Pagina \<lparr>conts = Some JsonInvalido, meteo = None\<rparr>) = Inl JSONDecodeError"
    by simp
  from fetchers_never_raise [where web = "\<lambda>estId. Pagina \<lparr>conts = None, meteo = Some JsonInvalido\<rparr>"
      and estId = 256 and pg = "\<lparr>conts = None, meteo = Some JsonInvalido\<rparr>"]
  have 6: "get_sinaica_cuerpo (Pagina \<lparr>conts = None, meteo = Some JsonInvalido\<rparr>) = Inl JSONDecodeError"
    by simp
  from fetchers_never_raise [where web = "\<lambda>estId. Pagina pagina_sin_blobs"
      and estId = 256 and pg = pagina_sin_blobs]
  have 7: "get_sinaica_data (\<lambda>estId. Pagina pagina_sin_blobs) 256 = Inr (None, [])"
    by (simp add: pagina_sin_blobs_def)
  from fetchers_never_raise [where net = "\<lparr>locations = (\<lambda>estId key. SinRespuesta), sensores_api = (\<lambda>sid key. SinRespuesta)\<rparr>"
      and estId = 10748 and key = "API_KEYS ! 0"]
  have 8: "get_openaq_cuerpo \<lparr>locations = (\<lambda>estId key. SinRespuesta), sensores_api = (\<lambda>sid key. SinRespuesta)\<rparr>
        10748 (API_KEYS ! 0) = Inl RequestException"
    by simp
  from fetchers_never_raise [where net = "\<lparr>locations = (\<lambda>estId key. Respuesta 429 JsonMalo), sensores_api = (\<lambda>sid key. SinRespuesta)\<rparr>"
      and estId = 10748 and key = "API_KEYS ! 0" and status = 429 and b = JsonMalo]
  have 9: "get_openaq_cuerpo \<lparr>locations = (\<lambda>estId key. Respuesta 429 JsonMalo), sensores_api = (\<lambda>sid key. SinRespuesta)\<rparr>
        10748 (API_KEYS ! 0) = Inl (HTTPError 429)"
    by simp
  from fetchers_never_raise [where net = "\<lparr>locations = (\<lambda>estId key. Respuesta 200 JsonMalo), sensores_api = (\<lambda>sid key. SinRespuesta)\<rparr>"
      and estId = 10748 and key = "API_KEYS ! 0"]
  have 10: "get_openaq_cuerpo \<lparr>locations = (\<lambda>estId key. Respuesta 200 JsonMalo), sensores_api = (\<lambda>sid key. SinRespuesta)\<rparr>
        10748 (API_KEYS ! 0) = Inl JSONDecodeError"
    by simp
  from fetchers_never_raise [where net = "\<lparr>locations = (\<lambda>estId key. Respuesta 200 (Json None)), sensores_api = (\<lambda>sid key. SinRespuesta)\<rparr>"
      and estId = 10748 and key = "API_KEYS ! 0"]
  have 11: "get_openaq_cuerpo \<lparr>locations = (\<lambda>estId key. Respuesta 200 (Json None)), sensores_api = (\<lambda>sid key. SinRespuesta)\<rparr>
        10748 (API_KEYS ! 0) = Inl KeyError"
    by simp
  from 1 2 3 4 b c 5 6 7 8 9 10 11 show ?thesis by simp
qed



subsection \<open>The scan: one station, then all\<close>

lemma aplicar_length: "aplicar f cs = Inr rs \<Longrightarrow> length rs = length cs"
proof (induction cs arbitrary: rs)
  case Nil
  then show ?case by simp
next
  case (Cons c cs)
  from Cons.prems obtain v rs' where "aplicar f cs = Inr rs'" "rs = a_celda (f v) # rs'"
    by (auto dest!: luego_Inr)
  with Cons.IH show ?case by simp
qed

lemma length_filas_set_columna:
  "length vs = length (filas d) \<Longrightarrow> length (filas (set_columna c vs d)) = length (filas d)"
  by (simp add: set_columna_def)

lemma clasificar_length:
  assumes "clasificar src dst f d = Inr d'"
  shows "length (filas d') = length (filas d)"
proof (cases "src \<in> set (columnas d)")
  case True
  with assms obtain vs where vs: "aplicar f (columna d src) = Inr vs" and d': "d' = set_columna dst vs d"
    by (auto simp: clasificar_def dest!: luego_Inr)
  from aplicar_length [OF vs] have "length vs = length (filas d)" by (simp add: columna_def)
  then show ?thesis unfolding d' by (rule length_filas_set_columna)
next
  case False
  with assms show ?thesis by (simp add: clasificar_def)
qed

lemma luego_InrE:
  assumes "luego m f = Inr y"
  obtains x where "m = Inr x" and "f x = Inr y"
  using assms by (cases m) simp_all

lemma evaluar_chain:
  assumes "evaluar_calidad_aire (Some d) = Inr (Some d')"
  obtains d1 d2 d3 d4 d5 gs where
    "clasificar ''CO'' ''calidad_CO'' calidad_co d = Inr d1"
    "clasificar ''O3'' ''calidad_O3'' calidad_o3 d1 = Inr d2"
    "clasificar ''NO2'' ''calidad_NO2'' calidad_no2 d2 = Inr d3"
    "clasificar ''NOX'' ''calidad_NOx'' calidad_nox d3 = Inr d4"
    "clasificar ''NO'' ''calidad_NO'' calidad_no d4 = Inr d5"
    "globales (map snd (filas d5)) = Inr gs"
    "d' = set_columna ''calidad_global'' gs d5"
proof -
  from assms have nv: "\<not> vacio d"
    by (auto simp: evaluar_calidad_aire_def split: if_splits)
  from assms nv have 0:
    "luego (clasificar ''CO'' ''calidad_CO'' calidad_co d) (\<lambda>d1.
     luego (clasificar ''O3'' ''calidad_O3'' calidad_o3 d1) (\<lambda>d2.
     luego (clasificar ''NO2'' ''calidad_NO2'' calidad_no2 d2) (\<lambda>d3.
     luego (clasificar ''NOX'' ''calidad_NOx'' calidad_nox d3) (\<lambda>d4.
     luego (clasificar ''NO'' ''calidad_NO'' calidad_no d4) (\<lambda>d5.
     luego (globales (map snd (filas d5))) (\<lambda>gs.
       Inr (Some (set_columna ''calidad_global'' gs d5)))))))) = Inr (Some d')"
    by (simp add: evaluar_calidad_aire_def)
  from 0 obtain d1 where 1: "clasificar ''CO'' ''calidad_CO'' calidad_co d = Inr d1"
    and r1: "luego (clasificar ''O3'' ''calidad_O3'' calidad_o3 d1) (\<lambda>d2.
     luego (clasificar ''NO2'' ''calidad_NO2'' calidad_no2 d2) (\<lambda>d3.
     luego (clasificar ''NOX'' ''calidad_NOx'' calidad_nox d3) (\<lambda>d4.
     luego (clasificar ''NO'' ''calidad_NO'' calidad_no d4) (\<lambda>d5.
     luego (globales (map snd (filas d5))) (\<lambda>gs.
       Inr (Some (set_columna ''calidad_global'' gs d5))))))) = Inr (Some d')"
    by (rule luego_InrE)
  from r1 obtain d2 where 2: "clasificar ''O3'' ''calidad_O3'' calidad_o3 d1 = Inr d2"
    and r2: "luego (clasificar ''NO2'' ''calidad_NO2'' calidad_no2 d2) (\<lambda>d3.
     luego (clasificar ''NOX'' ''calidad_NOx'' calidad_nox d3) (\<lambda>d4.
     luego (clasificar ''NO'' ''calidad_NO'' calidad_no d4) (\<lambda>d5.
     luego (globales (map snd (filas d5))) (\<lambda>gs.
       Inr (Some (set_columna ''calidad_global'' gs d5)))))) = Inr (Some d')"
    by (rule luego_InrE)
  from r2 obtain d3 where 3: "clasificar ''NO2'' ''calidad_NO2'' calidad_no2 d2 = Inr d3"
    and r3: "luego (clasificar ''NOX'' ''calidad_NOx'' calidad_nox d3) (\<lambda>d4.
     luego (clasificar ''NO'' ''calidad_NO'' calidad_no d4) (\<lambda>d5.
     luego (globales (map snd (filas d5))) (\<lambda>gs.
       Inr (Some (set_columna ''calidad_global'' gs d5))))) = Inr (Some d')"
    by (rule luego_InrE)
  from r3 obtain d4 where 4: "clasificar ''NOX'' ''calidad_NOx'' calidad_nox d3 = Inr d4"
    and r4: "luego (clasificar ''NO'' ''calidad_NO'' calidad_no d4) (\<lambda>d5.
     luego (globales (map snd (filas d5))) (\<lambda>gs.
       Inr (Some (set_columna ''calidad_global'' gs d5)))) = Inr (Some d')"
    by (rule luego_InrE)
  from r4 obtain d5 where 5: "clasificar ''NO'' ''calidad_NO'' calidad_no d4 = Inr d5"
    and r5: "luego (globales (map snd (filas d5))) (\<lambda>gs.
       Inr (Some (set_columna ''calidad_global'' gs d5))) = Inr (Some d')"
    by (rule luego_InrE)
  from r5 obtain gs where 6: "globales (map snd (filas d5)) = Inr gs"
    and r6: "Inr (Some (set_columna ''calidad_global'' gs d5)) = (Inr (Some d') :: excepcion + frame option)"
    by (rule luego_InrE)
  from r6 have "d' = set_columna ''calidad_global'' gs d5" by simp
  with 1 2 3 4 5 6 show ?thesis by (rule that)
qed

lemma evaluar_length:
  assumes "evaluar_calidad_aire (Some d) = Inr (Some d')"
  shows "length (filas d') = length (filas d)"
proof -
  from assms obtain d1 d2 d3 d4 d5 gs where
    s: "clasificar ''CO'' ''calidad_CO'' calidad_co d = Inr d1"
       "clasificar ''O3'' ''calidad_O3'' calidad_o3 d1 = Inr d2"
       "clasificar ''NO2'' ''calidad_NO2'' calidad_no2 d2 = Inr d3"
       "clasificar ''NOX'' ''calidad_NOx'' calidad_nox d3 = Inr d4"
       "clasificar ''NO'' ''calidad_NO'' calidad_no d4 = Inr d5"
       and g: "globales (map snd (filas d5)) = Inr gs"
       and d': "d' = set_columna ''calidad_global'' gs d5"
    by (rule evaluar_chain)
  from globales_all2 [OF g] have "length gs = length (filas d5)"
    by (auto dest: list_all2_lengthD)
  then have "length (filas d') = length (filas d5)"
    unfolding d' by (rule length_filas_set_columna)
  with s [THEN clasificar_length] show ?thesis by simp
qed

lemma set_escalar_length: "length (filas (set_escalar c v d)) = length (filas d)"
  by (simp add: set_escalar_def length_filas_set_columna)


lemma procesar_SomeD:
  assumes "procesar fuente estacion df = Inr (Some (d, t))"
  obtains d0 d1 where "df = Some d0" "\<not> vacio d0" "evaluar_calidad_aire (Some d0) = Inr (Some d1)"
    "d = set_escalar ''estacion'' (Txt estacion) (set_escalar ''fuente'' (Txt fuente) d1)"
    "reset_index d = Inr t"
proof (cases df)
  case None
  with assms show ?thesis by (simp add: procesar_def)
next
  case (Some d0)
  show ?thesis
  proof (cases "vacio d0")
    case True
    with assms Some show ?thesis by (simp add: procesar_def)
  next
    case False
    show ?thesis
    proof (cases "evaluar_calidad_aire (Some d0)")
      case (Inl e)
      with assms Some False show ?thesis by (simp add: procesar_def)
    next
      case (Inr r)
      show ?thesis
      proof (cases r)
        case None
        with assms Some False Inr show ?thesis by (simp add: procesar_def)
      next
        case (Some d1)
        let ?d2 = "set_escalar ''estacion'' (Txt estacion) (set_escalar ''fuente'' (Txt fuente) d1)"
        from assms \<open>df = Some d0\<close> False Inr Some
        have k: "luego (reset_index ?d2) (\<lambda>t. Inr (Some (?d2, t))) = Inr (Some (d, t))"
          by (simp add: procesar_def Let_def)
        then obtain t' where t': "reset_index ?d2 = Inr t'" and e: "Inr (Some (?d2, t')) = (Inr (Some (d, t)) :: excepcion + (frame \<times> tabla) option)"
          by (rule luego_InrE)
        from e have "d = ?d2" "t' = t" by simp_all
        with t' \<open>df = Some d0\<close> False Inr Some show ?thesis
          by (intro that [of d0 d1]) simp_all
      qed
    qed
  qed
qed


lemma procesar_Some:
  assumes "procesar fuente estacion df = Inr (Some (d, t))"
  shows "filas d \<noteq> []"
proof -
  from assms obtain d0 d1 where d0: "\<not> vacio d0" and d1: "evaluar_calidad_aire (Some d0) = Inr (Some d1)"
    and d: "d = set_escalar ''estacion'' (Txt estacion) (set_escalar ''fuente'' (Txt fuente) d1)"
    by (rule procesar_SomeD)
  from d0 have "length (filas d0) \<noteq> 0" by (simp add: vacio_def)
  with evaluar_length [OF d1] have "length (filas d) \<noteq> 0"
    unfolding d by (simp add: set_escalar_length)
  then show ?thesis by simp
qed

lemma entrada_de_ok:
  assumes "filas d \<noteq> []"
  obtains en where "entrada_de fuente d = Inr en" and "em_fuente en = fuente"
proof -
  from assms obtain i row rest where "filas d = (i, row) # rest"
    by (cases "filas d") auto
  then have "\<exists>en. entrada_de fuente d = Inr en \<and> em_fuente en = fuente"
    by (simp add: entrada_de_def)
  then show ?thesis using that by blast
qed

lemma guardar_mapa_ok:
  assumes "entrada_de fuente d = Inr en"
  shows "guardar_mapa fuente estacion d st = st\<lparr>datos_para_mapa := (datos_para_mapa st)(estacion \<mapsto> en)\<rparr>"
  using assms by (simp add: guardar_mapa_def)

lemma paso_sinaica_cases:
  obtains (sin_datos) ms where "exito_sinaica w e info = None"
      "paso_sinaica w e info st = st\<lparr>llamadas := llamadas st @ [(''SINAICA'', sinaica info)], mensajes := ms\<rparr>"
  | (con_datos) d t en ms where "exito_sinaica w e info = Some (d, t)"
      "entrada_de ''SINAICA'' d = Inr en" "em_fuente en = ''SINAICA''"
      "paso_sinaica w e info st =
         st\<lparr>llamadas := llamadas st @ [(''SINAICA'', sinaica info)], mensajes := ms,
            resultados := resultados st @ [t],
            datos_para_mapa :=
              (if (case datos_para_mapa st e of None \<Rightarrow> True | Some en' \<Rightarrow> em_fuente en' \<noteq> ''SINAICA'')
               then (datos_para_mapa st)(e \<mapsto> en) else datos_para_mapa st)\<rparr>"
proof (cases "get_sinaica_data (web_sinaica w) (sinaica info)")
  case (Inl ex)
  then have "exito_sinaica w e info = None" by (simp add: exito_sinaica_def)
  moreover from Inl have "paso_sinaica w e info st
      = st\<lparr>llamadas := llamadas st @ [(''SINAICA'', sinaica info)],
           mensajes := mensajes st @ [StError (''Error consultando SINAICA para '' @ e) ex]\<rparr>"
    by (simp add: paso_sinaica_def Let_def)
  ultimately show ?thesis by (rule sin_datos)
next
  case (Inr p)
  obtain df ds where p: "p = (df, ds)" by (cases p)
  show ?thesis
  proof (cases "procesar ''SINAICA'' e df")
    case (Inl ex)
    with Inr p have "exito_sinaica w e info = None" by (simp add: exito_sinaica_def)
    moreover from Inl Inr p have "paso_sinaica w e info st
      = st\<lparr>llamadas := llamadas st @ [(''SINAICA'', sinaica info)],
           mensajes := (mensajes st @ ds) @ [StError (''Error consultando SINAICA para '' @ e) ex]\<rparr>"
      by (simp add: paso_sinaica_def Let_def)
    ultimately show ?thesis by (rule sin_datos)
  next
    case r: (Inr r)
    show ?thesis
    proof (cases r)
      case None
      with r Inr p have "exito_sinaica w e info = None" by (simp add: exito_sinaica_def)
      moreover from None r Inr p have "paso_sinaica w e info st
        = st\<lparr>llamadas := llamadas st @ [(''SINAICA'', sinaica info)], mensajes := mensajes st @ ds\<rparr>"
        by (simp add: paso_sinaica_def Let_def)
      ultimately show ?thesis by (rule sin_datos)
    next
      case (Some dt)
      obtain d t where dt: "dt = (d, t)" by (cases dt)
      from Some dt r have pr: "procesar ''SINAICA'' e df = Inr (Some (d, t))" by simp
      from procesar_Some [OF pr] obtain en where en: "entrada_de ''SINAICA'' d = Inr en" "em_fuente en = ''SINAICA''"
        by (rule entrada_de_ok)
      from pr Inr p have ex: "exito_sinaica w e info = Some (d, t)" by (simp add: exito_sinaica_def)
      from pr Inr p have "paso_sinaica w e info st =
         st\<lparr>llamadas := llamadas st @ [(''SINAICA'', sinaica info)], mensajes := mensajes st @ ds,
            resultados := resultados st @ [t],
            datos_para_mapa :=
              (if (case datos_para_mapa st e of None \<Rightarrow> True | Some en' \<Rightarrow> em_fuente en' \<noteq> ''SINAICA'')
               then (datos_para_mapa st)(e \<mapsto> en) else datos_para_mapa st)\<rparr>"
        by (simp add: paso_sinaica_def Let_def guardar_mapa_ok [OF en(1)])
      with ex en show ?thesis by (rule con_datos)
    qed
  qed
qed

lemma paso_openaq_cases:
  obtains (sin_datos) ms where "exito_openaq w idx e info = None"
      "paso_openaq w idx e info st = st\<lparr>llamadas := llamadas st @ [(''OPENAQ'', openaq info)], mensajes := ms\<rparr>"
  | (con_datos) d t en ms where "exito_openaq w idx e info = Some (d, t)"
      "entrada_de ''OPENAQ'' d = Inr en" "em_fuente en = ''OPENAQ''"
      "paso_openaq w idx e info st =
         st\<lparr>llamadas := llamadas st @ [(''OPENAQ'', openaq info)], mensajes := ms,
            resultados := resultados st @ [t],
            datos_para_mapa :=
              (if datos_para_mapa st e = None
               then (datos_para_mapa st)(e \<mapsto> en) else datos_para_mapa st)\<rparr>"
proof (cases "get_openaq_data (api_openaq w) (openaq info) (API_KEYS ! (idx mod length API_KEYS))")
  case (Inl ex)
  then have "exito_openaq w idx e info = None" by (simp add: exito_openaq_def)
  moreover from Inl have "paso_openaq w idx e info st
      = st\<lparr>llamadas := llamadas st @ [(''OPENAQ'', openaq info)],
           mensajes := mensajes st @ [StError (''Error consultando OpenAQ para '' @ e) ex]\<rparr>"
    by (simp add: paso_openaq_def Let_def)
  ultimately show ?thesis by (rule sin_datos)
next
  case (Inr p)
  obtain df ds where p: "p = (df, ds)" by (cases p)
  show ?thesis
  proof (cases "procesar ''OPENAQ'' e df")
    case (Inl ex)
    with Inr p have "exito_openaq w idx e info = None" by (simp add: exito_openaq_def)
    moreover from Inl Inr p have "paso_openaq w idx e info st
      = st\<lparr>llamadas := llamadas st @ [(''OPENAQ'', openaq info)],
           mensajes := (mensajes st @ ds) @ [StError (''Error consultando OpenAQ para '' @ e) ex]\<rparr>"
      by (simp add: paso_openaq_def Let_def)
    ultimately show ?thesis by (rule sin_datos)
  next
    case r: (Inr r)
    show ?thesis
    proof (cases r)
      case None
      with r Inr p have "exito_openaq w idx e info = None" by (simp add: exito_openaq_def)
      moreover from None r Inr p have "paso_openaq w idx e info st
        = st\<lparr>llamadas := llamadas st @ [(''OPENAQ'', openaq info)], mensajes := mensajes st @ ds\<rparr>"
        by (simp add: paso_openaq_def Let_def)
      ultimately show ?thesis by (rule sin_datos)
    next
      case (Some dt)
      obtain d t where dt: "dt = (d, t)" by (cases dt)
      from Some dt r have pr: "procesar ''OPENAQ'' e df = Inr (Some (d, t))" by simp
      from procesar_Some [OF pr] obtain en where en: "entrada_de ''OPENAQ'' d = Inr en" "em_fuente en = ''OPENAQ''"
        by (rule entrada_de_ok)
      from pr Inr p have ex: "exito_openaq w idx e info = Some (d, t)" by (simp add: exito_openaq_def)
      from pr Inr p have "paso_openaq w idx e info st =
         st\<lparr>llamadas := llamadas st @ [(''OPENAQ'', openaq info)], mensajes := mensajes st @ ds,
            resultados := resultados st @ [t],
            datos_para_mapa :=
              (if datos_para_mapa st e = None
               then (datos_para_mapa st)(e \<mapsto> en) else datos_para_mapa st)\<rparr>"
        by (simp add: paso_openaq_def Let_def guardar_mapa_ok [OF en(1)])
      with ex en show ?thesis by (rule con_datos)
    qed
  qed
qed


lemma map_of_ESTACIONES:
  "e \<in> fst ` set ESTACIONES \<Longrightarrow> \<exists>info. map_of ESTACIONES e = Some info"
  by (cases "map_of ESTACIONES e") (simp_all add: map_of_eq_None_iff)

lemma paso_Ambas:
  "map_of ESTACIONES e = Some info \<Longrightarrow>
   paso w Ambas idx e st = Inr (paso_openaq w idx e info (paso_sinaica w e info st))"
  by (simp add: paso_def Let_def)

lemma primaria_spec_cases:
  assumes "map_of ESTACIONES e = Some info"
  shows "primaria_spec w idx e =
      (if exito_sinaica w e info \<noteq> None then Some ''SINAICA''
       else if exito_openaq w idx e info \<noteq> None then Some ''OPENAQ'' else None)"
  using assms by (simp add: primaria_spec_def orden_fuentes_def exito_def)

lemma exito_tags:
  assumes "map_of ESTACIONES e = Some info"
  shows "exito w idx e ''SINAICA'' = exito_sinaica w e info"
    and "exito w idx e ''OPENAQ'' = exito_openaq w idx e info"
  using assms by (simp_all add: exito_def)

lemma tablas_de_cases:
  assumes "map_of ESTACIONES e = Some info"
  shows "tablas_de w idx e =
      (case exito_sinaica w e info of None \<Rightarrow> [] | Some (d, t) \<Rightarrow> [t])
      @ (case exito_openaq w idx e info of None \<Rightarrow> [] | Some (d, t) \<Rightarrow> [t])"
  using assms
  by (simp add: tablas_de_def orden_fuentes_def exito_def split: option.splits)

lemma paso_sinaica_proj:
  "llamadas (paso_sinaica w e info st) = llamadas st @ [(''SINAICA'', sinaica info)]"
  "resultados (paso_sinaica w e info st)
     = resultados st @ (case exito_sinaica w e info of None \<Rightarrow> [] | Some (d, t) \<Rightarrow> [t])"
  "datos_para_mapa (paso_sinaica w e info st)
     = (case exito_sinaica w e info of
          None \<Rightarrow> datos_para_mapa st
        | Some (d, t) \<Rightarrow>
            if (case datos_para_mapa st e of None \<Rightarrow> True | Some en' \<Rightarrow> em_fuente en' \<noteq> ''SINAICA'')
            then (datos_para_mapa st)(e \<mapsto> projr (entrada_de ''SINAICA'' d))
            else datos_para_mapa st)"
  by (cases rule: paso_sinaica_cases [of w e info st]; simp)+

lemma paso_openaq_proj:
  "llamadas (paso_openaq w idx e info st) = llamadas st @ [(''OPENAQ'', openaq info)]"
  "resultados (paso_openaq w idx e info st)
     = resultados st @ (case exito_openaq w idx e info of None \<Rightarrow> [] | Some (d, t) \<Rightarrow> [t])"
  "datos_para_mapa (paso_openaq w idx e info st)
     = (case exito_openaq w idx e info of
          None \<Rightarrow> datos_para_mapa st
        | Some (d, t) \<Rightarrow>
            if datos_para_mapa st e = None
            then (datos_para_mapa st)(e \<mapsto> projr (entrada_de ''OPENAQ'' d))
            else datos_para_mapa st)"
  by (cases rule: paso_openaq_cases [of w idx e info st]; simp)+

lemma exito_sinaica_entrada:
  assumes "exito_sinaica w e info = Some (d, t)"
  shows "entrada_de ''SINAICA'' d = Inr (projr (entrada_de ''SINAICA'' d))
       \<and> em_fuente (projr (entrada_de ''SINAICA'' d)) = ''SINAICA''"
proof (cases rule: paso_sinaica_cases [of w e info undefined])
  case (sin_datos ms)
  with assms show ?thesis by simp
next
  case (con_datos d' t' en ms)
  with assms show ?thesis by simp
qed

lemma exito_openaq_entrada:
  assumes "exito_openaq w idx e info = Some (d, t)"
  shows "entrada_de ''OPENAQ'' d = Inr (projr (entrada_de ''OPENAQ'' d))
       \<and> em_fuente (projr (entrada_de ''OPENAQ'' d)) = ''OPENAQ''"
proof (cases rule: paso_openaq_cases [of w idx e info undefined])
  case (sin_datos ms)
  with assms show ?thesis by simp
next
  case (con_datos d' t' en ms)
  with assms show ?thesis by simp
qed

lemma paso_Ambas_efecto:
  assumes info: "map_of ESTACIONES e = Some info"
  obtains st' where "paso w Ambas idx e st = Inr st'"
    and "llamadas st' = llamadas st @ llamadas_de e"
    and "resultados st' = resultados st @ tablas_de w idx e"
    and "\<And>e'. e' \<noteq> e \<Longrightarrow> datos_para_mapa st' e' = datos_para_mapa st e'"
    and "datos_para_mapa st e = None \<Longrightarrow> primaria_ok w idx e (datos_para_mapa st' e)"
proof -
  let ?s1 = "paso_sinaica w e info st"
  let ?s2 = "paso_openaq w idx e info ?s1"
  have r: "paso w Ambas idx e st = Inr ?s2" using info by (rule paso_Ambas)
  have 1: "llamadas ?s2 = llamadas st @ llamadas_de e"
    by (simp add: paso_openaq_proj paso_sinaica_proj llamadas_de_def info)
  have 2: "resultados ?s2 = resultados st @ tablas_de w idx e"
    by (simp add: paso_openaq_proj paso_sinaica_proj tablas_de_cases [OF info])
  have 3: "datos_para_mapa ?s2 e' = datos_para_mapa st e'" if "e' \<noteq> e" for e'
    using that by (simp add: paso_openaq_proj paso_sinaica_proj split: option.splits)
  have 4: "primaria_ok w idx e (datos_para_mapa ?s2 e)" if n: "datos_para_mapa st e = None"
  proof (cases "exito_sinaica w e info")
    case None
    show ?thesis
    proof (cases "exito_openaq w idx e info")
      case o: None
      show ?thesis
        by (simp add: paso_openaq_proj paso_sinaica_proj None o n primaria_ok_def
            primaria_spec_cases [OF info])
    next
      case o: (Some dt)
      obtain d t where dt: "dt = (d, t)" by (cases dt)
      from exito_openaq_entrada [OF o [unfolded dt]] show ?thesis
        by (simp add: paso_openaq_proj paso_sinaica_proj None o dt n primaria_ok_def
            primaria_spec_cases [OF info] exito_tags [OF info])
    qed
  next
    case (Some dt)
    obtain d t where dt: "dt = (d, t)" by (cases dt)
    from exito_sinaica_entrada [OF Some [unfolded dt]] show ?thesis
      by (simp add: paso_openaq_proj paso_sinaica_proj Some dt n primaria_ok_def
          primaria_spec_cases [OF info] exito_tags [OF info] split: option.splits)
  qed
  from r 1 2 3 4 show ?thesis by (rule that)
qed


lemma escanear_desde_Ambas:
  assumes "set ests \<subseteq> fst ` set ESTACIONES"
  shows "\<exists>st'. escanear_desde w Ambas idx ests st = Inr st'
      \<and> llamadas st' = llamadas st @ concat (map llamadas_de ests)
      \<and> resultados st' = resultados st
           @ concat (map (\<lambda>(k, e). tablas_de w k e) (zip [idx..<idx + length ests] ests))
      \<and> (\<forall>e'. e' \<notin> set ests \<longrightarrow> datos_para_mapa st' e' = datos_para_mapa st e')
      \<and> (distinct ests \<longrightarrow> (\<forall>j < length ests. datos_para_mapa st (ests ! j) = None \<longrightarrow>
            primaria_ok w (idx + j) (ests ! j) (datos_para_mapa st' (ests ! j))))"
  using assms
proof (induction ests arbitrary: idx st)
  case Nil
  show ?case by simp
next
  case (Cons e es)
  from Cons.prems have "e \<in> fst ` set ESTACIONES" by simp
  then obtain info where info: "map_of ESTACIONES e = Some info"
    using map_of_ESTACIONES by blast
  from paso_Ambas_efecto [OF info, of w idx st] obtain st1 where
    p: "paso w Ambas idx e st = Inr st1"
    and l1: "llamadas st1 = llamadas st @ llamadas_de e"
    and r1: "resultados st1 = resultados st @ tablas_de w idx e"
    and m1: "\<And>e'. e' \<noteq> e \<Longrightarrow> datos_para_mapa st1 e' = datos_para_mapa st e'"
    and k1: "datos_para_mapa st e = None \<Longrightarrow> primaria_ok w idx e (datos_para_mapa st1 e)"
    by blast
  from Cons.prems have "set es \<subseteq> fst ` set ESTACIONES" by simp
  from Cons.IH [OF this, of "Suc idx" st1] obtain st' where
    s: "escanear_desde w Ambas (Suc idx) es st1 = Inr st'"
    and l2: "llamadas st' = llamadas st1 @ concat (map llamadas_de es)"
    and r2: "resultados st' = resultados st1
           @ concat (map (\<lambda>(k, e). tablas_de w k e) (zip [Suc idx..<Suc idx + length es] es))"
    and m2: "\<forall>e'. e' \<notin> set es \<longrightarrow> datos_para_mapa st' e' = datos_para_mapa st1 e'"
    and k2: "distinct es \<longrightarrow> (\<forall>j < length es. datos_para_mapa st1 (es ! j) = None \<longrightarrow>
            primaria_ok w (Suc idx + j) (es ! j) (datos_para_mapa st' (es ! j)))"
    by blast
  have a: "escanear_desde w Ambas idx (e # es) st = Inr st'" by (simp add: p s)
  have b: "llamadas st' = llamadas st @ concat (map llamadas_de (e # es))"
    by (simp add: l1 l2)
  have c: "resultados st' = resultados st
           @ concat (map (\<lambda>(k, e). tablas_de w k e) (zip [idx..<idx + length (e # es)] (e # es)))"
    using r1 r2 by (simp add: upt_conv_Cons del: upt_Suc)
  have d: "\<forall>e'. e' \<notin> set (e # es) \<longrightarrow> datos_para_mapa st' e' = datos_para_mapa st e'"
    using m1 m2 by simp
  have f: "primaria_ok w (idx + j) ((e # es) ! j) (datos_para_mapa st' ((e # es) ! j))"
    if dist: "distinct (e # es)" and j: "j < length (e # es)"
      and n: "datos_para_mapa st ((e # es) ! j) = None" for j
  proof (cases j)
    case 0
    from dist have "e \<notin> set es" by simp
    with m2 have "datos_para_mapa st' e = datos_para_mapa st1 e" by simp
    with k1 n 0 show ?thesis by simp
  next
    case (Suc j')
    with j have j': "j' < length es" by simp
    from dist j' have ne: "es ! j' \<noteq> e" by auto
    from n Suc have "datos_para_mapa st (es ! j') = None" by simp
    with m1 [OF ne] have "datos_para_mapa st1 (es ! j') = None" by simp
    with k2 dist j' have "primaria_ok w (Suc idx + j') (es ! j') (datos_para_mapa st' (es ! j'))"
      by simp
    with Suc show ?thesis by simp
  qed
  from a b c d f show ?case by blast
qed

lemma escanear_Ambas:
  assumes "set ests \<subseteq> fst ` set ESTACIONES"
  obtains st where "escanear w Ambas ests = Inr st"
    and "llamadas st = concat (map llamadas_de ests)"
    and "resultados st = concat (map (\<lambda>(k, e). tablas_de w k e) (zip [0..<length ests] ests))"
    and "\<And>j. distinct ests \<Longrightarrow> j < length ests \<Longrightarrow>
           primaria_ok w j (ests ! j) (datos_para_mapa st (ests ! j))"
proof -
  from escanear_desde_Ambas [OF assms, of w 0 estado_inicial]
  obtain st where "escanear_desde w Ambas 0 ests estado_inicial = Inr st"
      and "llamadas st = llamadas estado_inicial @ concat (map llamadas_de ests)"
      and "resultados st = resultados estado_inicial
           @ concat (map (\<lambda>(k, e). tablas_de w k e) (zip [0..<0 + length ests] ests))"
      and "distinct ests \<longrightarrow> (\<forall>j < length ests. datos_para_mapa estado_inicial (ests ! j) = None \<longrightarrow>
            primaria_ok w (0 + j) (ests ! j) (datos_para_mapa st (ests ! j)))"
    by blast
  then show ?thesis
    by (intro that [of st]) (simp_all add: escanear_def estado_inicial_def)
qed


lemma primaria_ok_fuente:
  "primaria_ok w idx e x \<Longrightarrow> map_option em_fuente x = primaria_spec w idx e"
  by (simp add: primaria_ok_def)

lemma primaria_spec_SINAICA:
  "exito w idx e ''SINAICA'' \<noteq> None \<Longrightarrow> primaria_spec w idx e = Some ''SINAICA''"
  by (simp add: primaria_spec_def orden_fuentes_def)

lemma primaria_spec_OPENAQ:
  "exito w idx e ''SINAICA'' = None \<Longrightarrow> exito w idx e ''OPENAQ'' \<noteq> None \<Longrightarrow>
   primaria_spec w idx e = Some ''OPENAQ''"
  by (simp add: primaria_spec_def orden_fuentes_def)

lemma primaria_spec_None:
  "(primaria_spec w idx e = None)
   = (exito w idx e ''SINAICA'' = None \<and> exito w idx e ''OPENAQ'' = None)"
  by (cases "exito w idx e ''SINAICA''"; cases "exito w idx e ''OPENAQ''")
    (simp_all add: primaria_spec_def orden_fuentes_def)

lemma info_Merced:
  "map_of ESTACIONES ''Merced''
   = Some \<lparr>lat = 19.4244, lng = -99.1197, sinaica = 256, openaq = 10748\<rparr>"
  by (simp add: ESTACIONES_def)

lemma ejemplo_sinaica_256:
  "get_sinaica_data (web_sinaica mundo_ejemplo) 256 = Inr (Some frame_ejemplo, [])"
  by code_simp

lemma ejemplo_procesar:
  "procesar ''SINAICA'' ''Merced'' (Some frame_ejemplo)
   = Inr (Some (frame_merced_sinaica, tabla_merced_sinaica))"
  by code_simp

lemma ejemplo_exito:
  "exito mundo_ejemplo idx ''Merced'' ''SINAICA'' = Some (frame_merced_sinaica, tabla_merced_sinaica)"
  by (simp add: exito_def info_Merced exito_sinaica_def ejemplo_sinaica_256 ejemplo_procesar)

lemma ejemplo_entrada:
  "em_calidad_global (projr (entrada_de ''SINAICA'' frame_merced_sinaica)) = Txt ''Mala''"
  by code_simp

lemma llamadas_de_Merced:
  "llamadas_de ''Merced'' = [(''SINAICA'', 256), (''OPENAQ'', 10748)]"
  by (simp add: llamadas_de_def info_Merced)

lemma sin_sinaica_256:
  "get_sinaica_data (web_sinaica mundo_sin_sinaica) 256 = Inr (None, [])"
  by code_simp

lemma un_sensor_10748:
  "get_openaq_data red_un_sensor 10748 key = Inr (Some frame_un_sensor, [])"
  by code_simp

lemma procesar_un_sensor:
  "procesar ''OPENAQ'' ''Merced'' (Some frame_un_sensor)
   = Inr (Some (frame_merced_openaq, tabla_merced_openaq))"
  by code_simp

lemma sin_sinaica_exitos:
  "exito mundo_sin_sinaica idx ''Merced'' ''SINAICA'' = None"
  "exito mundo_sin_sinaica idx ''Merced'' ''OPENAQ'' = Some (frame_merced_openaq, tabla_merced_openaq)"
proof -
  have a: "api_openaq mundo_sin_sinaica = red_un_sensor" by (simp add: mundo_sin_sinaica_def)
  show "exito mundo_sin_sinaica idx ''Merced'' ''SINAICA'' = None"
    by (simp add: exito_def info_Merced exito_sinaica_def sin_sinaica_256 procesar_def)
  show "exito mundo_sin_sinaica idx ''Merced'' ''OPENAQ'' = Some (frame_merced_openaq, tabla_merced_openaq)"
    by (simp add: exito_def info_Merced exito_openaq_def a un_sensor_10748 procesar_un_sensor)
qed

lemma caido_fetches:
  "get_sinaica_data (web_sinaica mundo_caido) 256
     = Inr (None, [StError ''Error obteniendo datos SINAICA'' RequestException])"
  "get_openaq_data red_sensor_falla 10748 key
     = Inr (None, [StError ''Error obteniendo datos OpenAQ'' (HTTPError 500)])"
  by code_simp+

lemma caido_exitos:
  "exito mundo_caido idx ''Merced'' ''SINAICA'' = None"
  "exito mundo_caido idx ''Merced'' ''OPENAQ'' = None"
proof -
  have a: "api_openaq mundo_caido = red_sensor_falla" by (simp add: mundo_caido_def)
  show "exito mundo_caido idx ''Merced'' ''SINAICA'' = None"
    by (simp add: exito_def info_Merced exito_sinaica_def caido_fetches procesar_def)
  show "exito mundo_caido idx ''Merced'' ''OPENAQ'' = None"
    by (simp add: exito_def info_Merced exito_openaq_def a caido_fetches procesar_def)
qed

text \<open>
  Claim C4. When both sources are requested, the stations scanned are distinct stations of
  the catalogue, and the scan has run, a station's entry in \<^verbatim>\<open>datos_para_mapa\<close> (its primary
  result) carries the tag of the first source, in the request order SINAICA then OpenAQ,
  that returned a non-empty success, and was built from that source's evaluated frame; the
  station has no entry when neither source succeeded. So a station whose scraped source
  succeeds has SINAICA as primary, and one whose scraped source fails or is empty while the
  REST source succeeds has OPENAQ.
\<close>

theorem primary_is_first_successful_source:
  "distinct ests \<and> set ests \<subseteq> fst ` set ESTACIONES \<and> j < length ests \<longrightarrow>
     (\<exists>st. escanear w Ambas ests = Inr st
        \<and> map_option em_fuente (datos_para_mapa st (ests ! j)) = primaria_spec w j (ests ! j)
        \<and> primaria_ok w j (ests ! j) (datos_para_mapa st (ests ! j))
        \<and> (exito w j (ests ! j) ''SINAICA'' \<noteq> None \<longrightarrow>
              map_option em_fuente (datos_para_mapa st (ests ! j)) = Some ''SINAICA'')
        \<and> (exito w j (ests ! j) ''SINAICA'' = None \<and> exito w j (ests ! j) ''OPENAQ'' \<noteq> None \<longrightarrow>
              map_option em_fuente (datos_para_mapa st (ests ! j)) = Some ''OPENAQ''))"
proof (intro impI, elim conjE)
  assume d: "distinct ests" and s: "set ests \<subseteq> fst ` set ESTACIONES" and j: "j < length ests"
  from escanear_Ambas [OF s, of w] obtain st where st: "escanear w Ambas ests = Inr st"
    and ok: "\<And>j. distinct ests \<Longrightarrow> j < length ests \<Longrightarrow>
           primaria_ok w j (ests ! j) (datos_para_mapa st (ests ! j))"
    by blast
  from ok [OF d j] have ok': "primaria_ok w j (ests ! j) (datos_para_mapa st (ests ! j))" .
  from primaria_ok_fuente [OF ok']
  have f: "map_option em_fuente (datos_para_mapa st (ests ! j)) = primaria_spec w j (ests ! j)" .
  show "\<exists>st. escanear w Ambas ests = Inr st
        \<and> map_option em_fuente (datos_para_mapa st (ests ! j)) = primaria_spec w j (ests ! j)
        \<and> primaria_ok w j (ests ! j) (datos_para_mapa st (ests ! j))
        \<and> (exito w j (ests ! j) ''SINAICA'' \<noteq> None \<longrightarrow>
              map_option em_fuente (datos_para_mapa st (ests ! j)) = Some ''SINAICA'')
        \<and> (exito w j (ests ! j) ''SINAICA'' = None \<and> exito w j (ests ! j) ''OPENAQ'' \<noteq> None \<longrightarrow>
              map_option em_fuente (datos_para_mapa st (ests ! j)) = Some ''OPENAQ'')"
    using st f ok' primaria_spec_SINAICA [of w j "ests ! j"] primaria_spec_OPENAQ [of w j "ests ! j"]
    by (intro exI [of _ st]) simp
qed


theorem primary_is_first_successful_source_witness:
  "distinct [''Pedregal'', ''Merced''] \<and> set [''Pedregal'', ''Merced''] \<subseteq> fst ` set ESTACIONES
   \<and> (1::nat) < length [''Pedregal'', ''Merced'']
   \<and> exito mundo_ejemplo 1 ''Merced'' ''SINAICA'' = Some (frame_merced_sinaica, tabla_merced_sinaica)
   \<and> (\<exists>st en. escanear mundo_ejemplo Ambas [''Pedregal'', ''Merced''] = Inr st
         \<and> datos_para_mapa st ''Merced'' = Some en
         \<and> em_fuente en = ''SINAICA'' \<and> em_calidad_global en = Txt ''Mala'')
   \<and> distinct [''Merced''] \<and> set [''Merced''] \<subseteq> fst ` set ESTACIONES \<and> (0::nat) < length [''Merced'']
   \<and> exito mundo_sin_sinaica 0 ''Merced'' ''SINAICA'' = None
   \<and> exito mundo_sin_sinaica 0 ''Merced'' ''OPENAQ'' = Some (frame_merced_openaq, tabla_merced_openaq)
   \<and> (\<exists>st. escanear mundo_sin_sinaica Ambas [''Merced''] = Inr st
         \<and> map_option em_fuente (datos_para_mapa st ''Merced'') = Some ''OPENAQ'')"
proof -
  have a: "distinct [''Pedregal'', ''Merced'']" by simp
  have b: "set [''Pedregal'', ''Merced''] \<subseteq> fst ` set ESTACIONES" by (simp add: ESTACIONES_def)
  have c: "(1::nat) < length [''Pedregal'', ''Merced'']" by simp
  note e = ejemplo_exito [of 1]
  from primary_is_first_successful_source [of "[''Pedregal'', ''Merced'']" 1 mundo_ejemplo] a b c
  obtain st where st: "escanear mundo_ejemplo Ambas [''Pedregal'', ''Merced''] = Inr st"
    and ok: "primaria_ok mundo_ejemplo 1 ''Merced'' (datos_para_mapa st ''Merced'')"
    and f: "exito mundo_ejemplo 1 ''Merced'' ''SINAICA'' \<noteq> None \<longrightarrow>
              map_option em_fuente (datos_para_mapa st ''Merced'') = Some ''SINAICA''"
    by auto
  from f e obtain en where en: "datos_para_mapa st ''Merced'' = Some en" "em_fuente en = ''SINAICA''"
    by auto
  from ok en e have "entrada_de ''SINAICA'' frame_merced_sinaica = Inr en"
    by (simp add: primaria_ok_def)
  with ejemplo_entrada have "em_calidad_global en = Txt ''Mala''" by simp
  with st en have 1: "\<exists>st en. escanear mundo_ejemplo Ambas [''Pedregal'', ''Merced''] = Inr st
         \<and> datos_para_mapa st ''Merced'' = Some en
         \<and> em_fuente en = ''SINAICA'' \<and> em_calidad_global en = Txt ''Mala''"
    by blast
  have a': "distinct [''Merced'']" by simp
  have b': "set [''Merced''] \<subseteq> fst ` set ESTACIONES" by (simp add: ESTACIONES_def)
  have c': "(0::nat) < length [''Merced'']" by simp
  note e' = sin_sinaica_exitos [of 0]
  from primary_is_first_successful_source [of "[''Merced'']" 0 mundo_sin_sinaica] a' b' c' e'
  have 2: "\<exists>st. escanear mundo_sin_sinaica Ambas [''Merced''] = Inr st
         \<and> map_option em_fuente (datos_para_mapa st ''Merced'') = Some ''OPENAQ''"
    by auto
  from a b c e 1 a' b' c' e' 2 show ?thesis by blast
qed

text \<open>
  Claim C7, as stated, fails: only a non-empty success is appended to \<^verbatim>\<open>resultados\<close>, so the
  outcome of a source that failed or returned no data is not retained. For the station
  Merced the scraped page carries no blob: the fetch is attempted and returns \<^verbatim>\<open>None\<close>, and
  after the scan \<^verbatim>\<open>resultados\<close> holds the REST source's table alone.
\<close>

theorem failed_source_leaves_no_result:
  "get_sinaica_data (web_sinaica mundo_sin_sinaica) 256 = Inr (None, [])
   \<and> (\<exists>st. escanear mundo_sin_sinaica Ambas [''Merced''] = Inr st
         \<and> llamadas st = [(''SINAICA'', 256), (''OPENAQ'', 10748)]
         \<and> resultados st = [tabla_merced_openaq]
         \<and> map_option em_fuente (datos_para_mapa st ''Merced'') = Some ''OPENAQ'')"
proof -
  have b: "set [''Merced''] \<subseteq> fst ` set ESTACIONES" by (simp add: ESTACIONES_def)
  from escanear_Ambas [OF b, of mundo_sin_sinaica]
  obtain st where st: "escanear mundo_sin_sinaica Ambas [''Merced''] = Inr st"
    and l: "llamadas st = concat (map llamadas_de [''Merced''])"
    and r: "resultados st = concat (map (\<lambda>(k, e). tablas_de mundo_sin_sinaica k e)
                                     (zip [0..<length [''Merced'']] [''Merced'']))"
    and ok: "\<And>j. distinct [''Merced''] \<Longrightarrow> j < length [''Merced''] \<Longrightarrow>
           primaria_ok mundo_sin_sinaica j ([''Merced''] ! j) (datos_para_mapa st ([''Merced''] ! j))"
    by blast
  have l': "llamadas st = [(''SINAICA'', 256), (''OPENAQ'', 10748)]"
    using l by (simp add: llamadas_de_Merced)
  have r': "resultados st = [tabla_merced_openaq]"
    using r by (simp add: tablas_de_def orden_fuentes_def sin_sinaica_exitos)
  from ok [of 0] have "primaria_ok mundo_sin_sinaica 0 ''Merced'' (datos_para_mapa st ''Merced'')"
    by simp
  then have "map_option em_fuente (datos_para_mapa st ''Merced'') = Some ''OPENAQ''"
    by (simp add: primaria_ok_def primaria_spec_def orden_fuentes_def sin_sinaica_exitos)
  with st l' r' sin_sinaica_256 show ?thesis by blast
qed

text \<open>
  Claim C7, amended. When both sources are requested, the scan of catalogue stations
  attempts both fetches for every station, whatever the outcome of the other source, and
  \<^verbatim>\<open>resultados\<close> retains exactly the tables of the non-empty successes, in scan order (a
  source that failed or returned no data leaves no entry). A station, scanned once, is left
  without an entry in \<^verbatim>\<open>datos_para_mapa\<close> (no data) exactly when neither source returned a
  non-empty success.
\<close>

theorem both_sources_attempted:
  "set ests \<subseteq> fst ` set ESTACIONES \<longrightarrow>
     (\<exists>st. escanear w Ambas ests = Inr st
        \<and> llamadas st = concat (map llamadas_de ests)
        \<and> resultados st = concat (map (\<lambda>(k, e). tablas_de w k e) (zip [0..<length ests] ests))
        \<and> (distinct ests \<longrightarrow>
             (\<forall>j < length ests.
                (datos_para_mapa st (ests ! j) = None)
                = (exito w j (ests ! j) ''SINAICA'' = None \<and> exito w j (ests ! j) ''OPENAQ'' = None))))"
proof
  assume s: "set ests \<subseteq> fst ` set ESTACIONES"
  from escanear_Ambas [OF s, of w]
  obtain st where st: "escanear w Ambas ests = Inr st"
    and l: "llamadas st = concat (map llamadas_de ests)"
    and r: "resultados st = concat (map (\<lambda>(k, e). tablas_de w k e) (zip [0..<length ests] ests))"
    and ok: "\<And>j. distinct ests \<Longrightarrow> j < length ests \<Longrightarrow>
           primaria_ok w j (ests ! j) (datos_para_mapa st (ests ! j))"
    by blast
  have "(datos_para_mapa st (ests ! j) = None)
        = (exito w j (ests ! j) ''SINAICA'' = None \<and> exito w j (ests ! j) ''OPENAQ'' = None)"
    if "distinct ests" "j < length ests" for j
  proof -
    from primaria_ok_fuente [OF ok [OF that]]
    have "(datos_para_mapa st (ests ! j) = None) = (primaria_spec w j (ests ! j) = None)"
      by (metis option.map_disc_iff)
    then show ?thesis by (simp only: primaria_spec_None)
  qed
  with st l r show "\<exists>st. escanear w Ambas ests = Inr st
        \<and> llamadas st = concat (map llamadas_de ests)
        \<and> resultados st = concat (map (\<lambda>(k, e). tablas_de w k e) (zip [0..<length ests] ests))
        \<and> (distinct ests \<longrightarrow>
             (\<forall>j < length ests.
                (datos_para_mapa st (ests ! j) = None)
                = (exito w j (ests ! j) ''SINAICA'' = None \<and> exito w j (ests ! j) ''OPENAQ'' = None)))"
    by blast
qed

theorem both_sources_attempted_witness:
  "set [''Merced''] \<subseteq> fst ` set ESTACIONES \<and> distinct [''Merced'']
   \<and> exito mundo_caido 0 ''Merced'' ''SINAICA'' = None
   \<and> exito mundo_caido 0 ''Merced'' ''OPENAQ'' = None
   \<and> (\<exists>st. escanear mundo_caido Ambas [''Merced''] = Inr st
         \<and> llamadas st = [(''SINAICA'', 256), (''OPENAQ'', 10748)]
         \<and> resultados st = []
         \<and> datos_para_mapa st ''Merced'' = None)"
proof -
  have b: "set [''Merced''] \<subseteq> fst ` set ESTACIONES" by (simp add: ESTACIONES_def)
  from both_sources_attempted [of "[''Merced'']" mundo_caido] b
  obtain st where st: "escanear mundo_caido Ambas [''Merced''] = Inr st"
    and l: "llamadas st = concat (map llamadas_de [''Merced''])"
    and r: "resultados st = concat (map (\<lambda>(k, e). tablas_de mundo_caido k e)
                                     (zip [0..<length [''Merced'']] [''Merced'']))"
    and n: "distinct [''Merced''] \<longrightarrow>
             (\<forall>j < length [''Merced''].
                (datos_para_mapa st ([''Merced''] ! j) = None)
                = (exito mundo_caido j ([''Merced''] ! j) ''SINAICA'' = None
                   \<and> exito mundo_caido j ([''Merced''] ! j) ''OPENAQ'' = None))"
    by blast
  have l': "llamadas st = [(''SINAICA'', 256), (''OPENAQ'', 10748)]"
    using l by (simp add: llamadas_de_Merced)
  have r': "resultados st = []"
    using r by (simp add: tablas_de_def orden_fuentes_def caido_exitos)
  from n have "datos_para_mapa st ''Merced'' = None"
    by (simp add: caido_exitos)
  with st l' r' b caido_exitos [of 0] show ?thesis by auto
qed


subsection \<open>Column labels and classification by label\<close>
















lemma columnas_tail1 [simp]: "columnas (tail1 df) = columnas df"
  by (simp add: tail1_def)







subsection \<open>The result cache: hits, expiry and clearing\<close>

lemma cached_hit:
  "entradas c k = Some (t0, v) \<Longrightarrow> now < t0 + ttl \<Longrightarrow> cached net now k c = (v, c)"
  by (simp add: cached_def)

lemma cached_expired:
  "entradas c k = Some (t0, v) \<Longrightarrow> t0 + ttl \<le> now \<Longrightarrow> cached net now k c = recalcular net now k c"
  by (simp add: cached_def)

lemma cached_absent:
  "entradas c k = None \<Longrightarrow> cached net now k c = recalcular net now k c"
  by (simp add: cached_def)

lemma cached_twice:
  assumes "cached net t1 k c = recalcular net t1 k c" and "t2 < t1 + ttl"
  shows "cached net t2 k (snd (cached net t1 k c)) = (fst (cached net t1 k c), snd (cached net t1 k c))"
    and "llamadas_upstream (snd (cached net t1 k c)) = llamadas_upstream c @ [k]"
  using assms by (simp_all add: recalcular_def cached_hit)

text \<open>
  Claim C9, as stated, fails for the REST source: the key of a cached fetch is the argument
  tuple, and \<^verbatim>\<open>get_openaq_data\<close> takes the API key as an argument. The scan picks the key by
  the station's position in the selection, so the same station can be fetched with either
  credential: two fetches of station 10860 ten seconds apart, one with each key, both go
  upstream.
\<close>

theorem cache_key_includes_api_key:
  "API_KEYS ! 0 \<noteq> API_KEYS ! 1
   \<and> llamadas_upstream
        (snd (get_openaq_data_cached internet_fijo 10 10860 (API_KEYS ! 1)
               (snd (get_openaq_data_cached internet_fijo 0 10860 (API_KEYS ! 0) cache_vacio))))
      = [ClaveOpenaq 10860 (API_KEYS ! 0), ClaveOpenaq 10860 (API_KEYS ! 1)]
   \<and> (10::nat) < 0 + ttl"
  by code_simp

text \<open>
  Claim C9, amended. For every cache key, which is the fetch function with its arguments
  (the station id for the scraped source; the station id together with the API key for the
  REST source), a fetch that goes upstream at time t1 and a second fetch before t1 + 600
  return identical data with exactly one upstream call; a fetch whose entry is still fresh
  calls nothing; a fetch at or after the expiry of its entry goes upstream again; and after
  clearing the cache there is no entry, so the next fetch of any key goes upstream.
\<close>

theorem cache_per_argument_key:
  "((entradas c k = None \<or> (\<exists>t0 v. entradas c k = Some (t0, v) \<and> t0 + ttl \<le> t1)) \<and> t2 < t1 + ttl \<longrightarrow>
      cached net t2 k (snd (cached net t1 k c)) = (fst (cached net t1 k c), snd (cached net t1 k c))
      \<and> fst (cached net t1 k c) = upstream net t1 k
      \<and> llamadas_upstream (snd (cached net t1 k c)) = llamadas_upstream c @ [k])
   \<and> (entradas c k = Some (t0, v) \<and> now < t0 + ttl \<longrightarrow> cached net now k c = (v, c))
   \<and> (entradas c k = Some (t0, v) \<and> t0 + ttl \<le> now \<longrightarrow>
        fst (cached net now k c) = upstream net now k
        \<and> llamadas_upstream (snd (cached net now k c)) = llamadas_upstream c @ [k])
   \<and> entradas (clear c) = Map.empty
   \<and> fst (cached net now k (clear c)) = upstream net now k
   \<and> llamadas_upstream (snd (cached net now k (clear c))) = llamadas_upstream c @ [k]
   \<and> get_sinaica_data_cached net now estId c = cached net now (ClaveSinaica estId) c
   \<and> get_openaq_data_cached net now estId API_KEY c = cached net now (ClaveOpenaq estId API_KEY) c
   \<and> ttl = 600"
proof -
  have 1: "cached net t2 k (snd (cached net t1 k c)) = (fst (cached net t1 k c), snd (cached net t1 k c))
      \<and> fst (cached net t1 k c) = upstream net t1 k
      \<and> llamadas_upstream (snd (cached net t1 k c)) = llamadas_upstream c @ [k]"
    if "entradas c k = None \<or> (\<exists>t0 v. entradas c k = Some (t0, v) \<and> t0 + ttl \<le> t1)" "t2 < t1 + ttl"
  proof -
    from that(1) have m: "cached net t1 k c = recalcular net t1 k c"
      by (auto simp: cached_absent cached_expired)
    from cached_twice [OF m that(2)] m show ?thesis by (simp add: recalcular_def)
  qed
  have 2: "cached net now k c = (v, c)" if "entradas c k = Some (t0, v)" "now < t0 + ttl"
    using that by (rule cached_hit)
  have 3: "fst (cached net now k c) = upstream net now k
        \<and> llamadas_upstream (snd (cached net now k c)) = llamadas_upstream c @ [k]"
    if "entradas c k = Some (t0, v)" "t0 + ttl \<le> now"
    using cached_expired [OF that] by (simp add: recalcular_def)
  have 4: "entradas (clear c) = Map.empty" by (simp add: clear_def)
  have 5: "fst (cached net now k (clear c)) = upstream net now k
        \<and> llamadas_upstream (snd (cached net now k (clear c))) = llamadas_upstream c @ [k]"
    by (simp add: cached_def clear_def recalcular_def)
  have 6: "get_sinaica_data_cached net now estId c = cached net now (ClaveSinaica estId) c"
    by (simp add: get_sinaica_data_cached_def)
  have 7: "get_openaq_data_cached net now estId API_KEY c = cached net now (ClaveOpenaq estId API_KEY) c"
    by (simp add: get_openaq_data_cached_def)
  have 8: "ttl = 600" by (simp add: ttl_def)
  from 1 2 3 4 5 6 7 8 show ?thesis by blast
qed

theorem cache_per_argument_key_witness:
  "entradas cache_vacio (ClaveSinaica 256) = None \<and> (599::nat) < 0 + ttl
   \<and> cached internet_fijo 599 (ClaveSinaica 256) (snd (cached internet_fijo 0 (ClaveSinaica 256) cache_vacio))
       = (fst (cached internet_fijo 0 (ClaveSinaica 256) cache_vacio),
          snd (cached internet_fijo 0 (ClaveSinaica 256) cache_vacio))
   \<and> llamadas_upstream (snd (cached internet_fijo 0 (ClaveSinaica 256) cache_vacio)) = [ClaveSinaica 256]
   \<and> entradas (snd (cached internet_fijo 0 (ClaveSinaica 256) cache_vacio)) (ClaveSinaica 256)
       = Some (0, upstream internet_fijo 0 (ClaveSinaica 256))
   \<and> (0::nat) + ttl \<le> 600
   \<and> llamadas_upstream
        (snd (cached internet_fijo 600 (ClaveSinaica 256)
               (snd (cached internet_fijo 0 (ClaveSinaica 256) cache_vacio))))
       = [ClaveSinaica 256, ClaveSinaica 256]"
proof -
  let ?c1 = "snd (cached internet_fijo 0 (ClaveSinaica 256) cache_vacio)"
  have a: "entradas cache_vacio (ClaveSinaica 256) = None" by (simp add: cache_vacio_def)
  have b: "(599::nat) < 0 + ttl" by (simp add: ttl_def)
  have c: "llamadas_upstream cache_vacio = []" by (simp add: cache_vacio_def)
  from cache_per_argument_key [where c = cache_vacio and k = "ClaveSinaica 256" and ?t1.0 = 0
      and ?t2.0 = 599 and net = internet_fijo] a b
  have 1: "cached internet_fijo 599 (ClaveSinaica 256) ?c1
       = (fst (cached internet_fijo 0 (ClaveSinaica 256) cache_vacio), ?c1)"
    and 2: "llamadas_upstream ?c1 = llamadas_upstream cache_vacio @ [ClaveSinaica 256]"
    by blast+
  have d: "entradas ?c1 (ClaveSinaica 256) = Some (0, upstream internet_fijo 0 (ClaveSinaica 256))"
    by (simp add: cached_def recalcular_def cache_vacio_def)
  have e: "(0::nat) + ttl \<le> 600" by (simp add: ttl_def)
  from cache_per_argument_key [where c = ?c1 and k = "ClaveSinaica 256" and ?t0.0 = 0
      and v = "upstream internet_fijo 0 (ClaveSinaica 256)" and now = 600 and net = internet_fijo] d e
  have 3: "llamadas_upstream (snd (cached internet_fijo 600 (ClaveSinaica 256) ?c1))
       = llamadas_upstream ?c1 @ [ClaveSinaica 256]"
    by blast
  from a b c 1 2 d e 3 show ?thesis by simp
qed

end
